theory Spec2Isabelle
  imports Main
begin

section \<open>Data model\<close>

text \<open>
  The job \<^verbatim>\<open>app/jobs/buildPackage.js\<close> fetches the remote tags of a package, filters
  them, keeps the release records in step with them and adds the build-release jobs
  that are missing. JavaScript values that may be \<^verbatim>\<open>null\<close> or \<^verbatim>\<open>undefined\<close> are
  options; the calls to the modules the job requires are recorded, in order, in the
  field \<open>calls\<close> of the state.
\<close>

text \<open>
  A remote tag object \<^verbatim>\<open>{ tag, commit }\<close>. \<open>objId\<close> is the identity of the JavaScript
  object: lodash's \<^verbatim>\<open>difference\<close> compares objects by reference, and two objects
  with the same tag and commit are still two objects.
\<close>

record remoteTag =
  objId :: nat
  tag :: string
  commit :: string

text \<open>
  Modelled from the spec: \<^verbatim>\<open>ReleaseState\<close> of \<^verbatim>\<open>models/common\<close> (state is one of
  Pending, Succeeded, Failed and others); the other states are \<open>OtherState n\<close>.
\<close>

datatype releaseState = Pending | Succeeded | Failed | OtherState nat

text \<open>
  Modelled from the spec: a release record of \<^verbatim>\<open>models/release\<close>, keyed by
  (packageName, version). \<open>version\<close> is what \<^verbatim>\<open>getVersionFromTag\<close> returned (a
  version or \<^verbatim>\<open>null\<close>); \<open>reason\<close> is the reason code, \<open>None\<close> when unset.
\<close>

record release =
  packageName :: string
  version :: "string option"
  relCommit :: string
  relTag :: string
  state :: releaseState
  reason :: "nat option"

text \<open>\<^verbatim>\<open>config.jobs.buildRelease\<close>: the key prefix of job ids and the delay in seconds.\<close>

record jobConfig =
  key :: string
  delay :: int

text \<open>
  The \<^verbatim>\<open>delay\<close> handed to \<^verbatim>\<open>addJob\<close>: the number \<^verbatim>\<open>0\<close>, or the Date \<^verbatim>\<open>dt\<close> built by
  \<^verbatim>\<open>dt = new Date(); dt.setSeconds(dt.getSeconds() + s)\<close>, the instant \<open>s\<close> seconds
  after the current time, written \<open>DelayDate s\<close>.
\<close>

datatype jobDelay = DelayZero | DelayDate int

record job =
  jobId :: string
  jobCfg :: jobConfig
  jobDelay :: jobDelay

text \<open>The package loaded from its yaml file.\<close>

record package =
  name :: string
  repoUrl :: string
  gitTagIgnore :: "string option"
  gitTagPrefix :: "string option"

datatype event =
    SetInvalidTags string "remoteTag list"
  | FetchAll string
  | RemoveRelease string "string option"
  | FetchOne string "string option"
  | Save release
  | GetJob string
  | AddJob job

text \<open>
  The state outside the job: the release store, the invalid tags of each package, the
  jobs of the main queue, and the calls made so far (oldest first).
\<close>

record world =
  releases :: "release list"
  invalidTags :: "string \<Rightarrow> remoteTag list option"
  jobs :: "job list"
  calls :: "event list"

text \<open>
  What the job requires and this repository's sources do not hold: the version parser,
  the regular expressions of JavaScript (\<open>newRegExp_i p\<close> is \<^verbatim>\<open>new RegExp(p, "i")\<close>:
  \<open>None\<close> when the pattern is refused with a SyntaxError, else its \<^verbatim>\<open>test\<close>), the
  package loader, the remote tag lister, the configuration and the reason tables.
\<close>

record env =
  getVersionFromTag :: "string \<Rightarrow> string option"
  newRegExp_i :: "string \<Rightarrow> (string \<Rightarrow> bool) option"
  loadPackage :: "string \<Rightarrow> package"
  cleanRepoUrl :: "string \<Rightarrow> string \<Rightarrow> string"
  gitListRemoteTags :: "string \<Rightarrow> remoteTag list"
  buildRelease :: jobConfig
  releaseReasonGet :: "nat option \<Rightarrow> string option"
  retryableReleaseReason :: "string list"

datatype error = SyntaxError

section \<open>filterRemoteTags\<close>

text \<open>\<^verbatim>\<open>s.startsWith(p)\<close>.\<close>

fun startsWith :: "string \<Rightarrow> string \<Rightarrow> bool" where
  "startsWith s [] = True"
| "startsWith [] (c # p) = False"
| "startsWith (d # s) (c # p) = (d = c \<and> startsWith s p)"

text \<open>A character matches a letter of a pattern with the flag \<^verbatim>\<open>i\<close> in either case.\<close>

definition ciChar :: "char \<Rightarrow> char \<Rightarrow> char \<Rightarrow> bool" where
  "ciChar lo up c = (c = lo \<or> c = up)"

text \<open>\<^verbatim>\<open>^upm\/\<close> with the flag \<^verbatim>\<open>i\<close>.\<close>

fun upmPrefix :: "string \<Rightarrow> bool" where
  "upmPrefix (a # b # c # d # s) =
     (ciChar (CHR ''u'') (CHR ''U'') a \<and> ciChar (CHR ''p'') (CHR ''P'') b \<and>
      ciChar (CHR ''m'') (CHR ''M'') c \<and> d = CHR ''/'')"
| "upmPrefix s = False"

text \<open>\<^verbatim>\<open>(_|-)upm$\<close> with the flag \<^verbatim>\<open>i\<close>, read on the reversed string.\<close>

fun upmSuffixRev :: "string \<Rightarrow> bool" where
  "upmSuffixRev (c # b # a # d # s) =
     (ciChar (CHR ''m'') (CHR ''M'') c \<and> ciChar (CHR ''p'') (CHR ''P'') b \<and>
      ciChar (CHR ''u'') (CHR ''U'') a \<and> (d = CHR ''_'' \<or> d = CHR ''-''))"
| "upmSuffixRev s = False"

text \<open>\<^verbatim>\<open>upmRe.test(t)\<close> for \<^verbatim>\<open>upmRe = /(^upm\/|(_|-)upm$)/i\<close>.\<close>

definition upmRe :: "string \<Rightarrow> bool" where
  "upmRe t = (upmPrefix t \<or> upmSuffixRev (rev t))"

text \<open>A condition \<^verbatim>\<open>if (s)\<close> on a string that may be undefined: false when it is, or empty.\<close>

fun truthy :: "string option \<Rightarrow> bool" where
  "truthy None = False"
| "truthy (Some s) = (s \<noteq> [])"

text \<open>The three filters on the raw tags: prefix, semver, ignore pattern.\<close>

definition filteredTags ::
  "env \<Rightarrow> remoteTag list \<Rightarrow> string option \<Rightarrow> string option \<Rightarrow> error + remoteTag list" where
  "filteredTags e remoteTags ign pre =
     (let tags = remoteTags;
          tags = (if truthy pre then filter (\<lambda>x. startsWith (tag x) (the pre)) tags else tags);
          tags = filter (\<lambda>x. getVersionFromTag e (tag x) \<noteq> None) tags
      in if truthy ign then
           (case newRegExp_i e (the ign) of
              None \<Rightarrow> Inl SyntaxError
            | Some ignoreRe \<Rightarrow> Inr (filter (\<lambda>x. \<not> ignoreRe (tag x)) tags))
         else Inr tags)"

text \<open>
  The loop \<^verbatim>\<open>for (const element of tags)\<close> that removes duplications: the state is
  the array \<^verbatim>\<open>validTags\<close> and the set \<^verbatim>\<open>versionSet\<close>.
\<close>

fun removeDuplications ::
  "env \<Rightarrow> remoteTag list \<Rightarrow> remoteTag list \<times> string option set \<Rightarrow>
   remoteTag list \<times> string option set" where
  "removeDuplications e [] (validTags, versionSet) = (validTags, versionSet)"
| "removeDuplications e (element # tags) (validTags, versionSet) =
     (let version = getVersionFromTag e (tag element)
      in if version \<notin> versionSet
         then removeDuplications e tags (validTags @ [element], insert version versionSet)
         else removeDuplications e tags (validTags, versionSet))"

text \<open>
  The list \<^verbatim>\<open>validTags\<close> as the passes build it from the filtered tags: the tags that
  match \<^verbatim>\<open>upmRe\<close>, then what the loop pushes.
\<close>

definition accumulatedValidTags :: "env \<Rightarrow> remoteTag list \<Rightarrow> remoteTag list" where
  "accumulatedValidTags e tags =
     (let validTags = filter (\<lambda>x. upmRe (tag x)) tags;
          versionSet = set (map (\<lambda>x. getVersionFromTag e (tag x)) validTags)
      in fst (removeDuplications e tags (validTags, versionSet)))"

definition filterRemoteTags ::
  "env \<Rightarrow> remoteTag list \<Rightarrow> string option \<Rightarrow> string option \<Rightarrow> error + remoteTag list" where
  "filterRemoteTags e remoteTags ign pre =
     (case filteredTags e remoteTags ign pre of
        Inl err \<Rightarrow> Inl err
      | Inr tags \<Rightarrow> Inr (accumulatedValidTags e tags))"

section \<open>The release store, the invalid tags and the queue\<close>

text \<open>
  Modelled from the spec: \<^verbatim>\<open>Release.fetchAll(packageName)\<close> of \<^verbatim>\<open>models/release\<close>, the
  releases of the package.
\<close>

definition fetchAll :: "string \<Rightarrow> world \<Rightarrow> release list \<times> world" where
  "fetchAll pn w =
     (filter (\<lambda>r. packageName r = pn) (releases w), w\<lparr>calls := calls w @ [FetchAll pn]\<rparr>)"

text \<open>
  Modelled from the spec: \<^verbatim>\<open>Release.fetchOne(packageName, version)\<close> of
  \<^verbatim>\<open>models/release\<close>, the release with that key or \<^verbatim>\<open>null\<close>.
\<close>

definition fetchOne :: "string \<Rightarrow> string option \<Rightarrow> world \<Rightarrow> release option \<times> world" where
  "fetchOne pn v w =
     (find (\<lambda>r. packageName r = pn \<and> version r = v) (releases w),
      w\<lparr>calls := calls w @ [FetchOne pn v]\<rparr>)"

text \<open>
  Modelled from the spec: \<^verbatim>\<open>Release.save(record)\<close> of \<^verbatim>\<open>models/release\<close>, which stores
  the record under its key with the default state (Pending, reason unset) and returns
  the release.
\<close>

definition save :: "release \<Rightarrow> world \<Rightarrow> release \<times> world" where
  "save r w =
     (r, w\<lparr>releases :=
              filter (\<lambda>x. \<not> (packageName x = packageName r \<and> version x = version r))
                (releases w) @ [r],
            calls := calls w @ [Save r]\<rparr>)"

text \<open>
  Modelled from the spec: \<^verbatim>\<open>removeRelease(packageName, version)\<close> of
  \<^verbatim>\<open>jobs/removeRelease\<close>, which deletes the release record with that key.
\<close>

definition removeRelease :: "string \<Rightarrow> string option \<Rightarrow> world \<Rightarrow> world" where
  "removeRelease pn v w =
     w\<lparr>releases := filter (\<lambda>x. \<not> (packageName x = pn \<and> version x = v)) (releases w),
       calls := calls w @ [RemoveRelease pn v]\<rparr>"

text \<open>
  Modelled from the spec: \<^verbatim>\<open>PackageExtra.setInvalidTags(packageName, tags)\<close> of
  \<^verbatim>\<open>models/packageExtra\<close>, a full overwrite.
\<close>

definition setInvalidTags :: "string \<Rightarrow> remoteTag list \<Rightarrow> world \<Rightarrow> world" where
  "setInvalidTags pn ts w =
     w\<lparr>invalidTags := (invalidTags w)(pn \<mapsto> ts), calls := calls w @ [SetInvalidTags pn ts]\<rparr>"

text \<open>
  Modelled from the spec: \<^verbatim>\<open>queue.getJob(jobId)\<close> of \<^verbatim>\<open>queues/core\<close>, the job with
  that id or \<^verbatim>\<open>null\<close>.
\<close>

definition getJob :: "string \<Rightarrow> world \<Rightarrow> job option \<times> world" where
  "getJob jid w =
     (find (\<lambda>j. jobId j = jid) (jobs w), w\<lparr>calls := calls w @ [GetJob jid]\<rparr>)"

text \<open>
  Modelled from the spec: \<^verbatim>\<open>addJob({ jobId, jobConfig, delay })\<close> of \<^verbatim>\<open>queues/core\<close>,
  which adds the job to the queue and returns it.
\<close>

definition addJob :: "job \<Rightarrow> world \<Rightarrow> job \<times> world" where
  "addJob j w = (j, w\<lparr>jobs := jobs w @ [j], calls := calls w @ [AddJob j]\<rparr>)"

text \<open>lodash's \<^verbatim>\<open>difference(xs, ys)\<close>: the values of \<open>xs\<close> that are not in \<open>ys\<close>, in order.\<close>

definition difference :: "'a list \<Rightarrow> 'a list \<Rightarrow> 'a list" where
  "difference xs ys = filter (\<lambda>x. x \<notin> set ys) xs"

section \<open>updateReleaseRecords\<close>

text \<open>
  \<^verbatim>\<open>remoteTags.find(x => x.tag == rel.tag && x.commit == rel.commit)\<close> finds a tag.
\<close>

definition listed :: "remoteTag list \<Rightarrow> release \<Rightarrow> bool" where
  "listed remoteTags rel =
     (find (\<lambda>x. tag x = relTag rel \<and> commit x = relCommit rel) remoteTags \<noteq> None)"

text \<open>The first loop: remove failed local releases that are not listed in remoteTags.\<close>

fun removeFailed :: "string \<Rightarrow> remoteTag list \<Rightarrow> release list \<Rightarrow> world \<Rightarrow> world" where
  "removeFailed pn remoteTags [] w = w"
| "removeFailed pn remoteTags (rel # rels) w =
     (if state rel = Failed then
        (if \<not> listed remoteTags rel
         then removeFailed pn remoteTags rels (removeRelease pn (version rel) w)
         else removeFailed pn remoteTags rels w)
      else removeFailed pn remoteTags rels w)"

text \<open>The second loop: convert remoteTags to releases.\<close>

fun convertTags ::
  "env \<Rightarrow> string \<Rightarrow> remoteTag list \<Rightarrow> release list \<times> world \<Rightarrow> release list \<times> world" where
  "convertTags e pn [] (rels, w) = (rels, w)"
| "convertTags e pn (remoteTag # remoteTags) (rels, w) =
     (let version = getVersionFromTag e (tag remoteTag);
          (found, w1) = fetchOne pn version w
      in case found of
           None \<Rightarrow>
             (let record = \<lparr>packageName = pn, version = version,
                            relCommit = commit remoteTag, relTag = tag remoteTag,
                            state = Pending, reason = None\<rparr>;
                  (rel, w2) = save record w1
              in convertTags e pn remoteTags (rels @ [rel], w2))
         | Some rel \<Rightarrow> convertTags e pn remoteTags (rels @ [rel], w1))"

definition updateReleaseRecords ::
  "env \<Rightarrow> string \<Rightarrow> remoteTag list \<Rightarrow> world \<Rightarrow> release list \<times> world" where
  "updateReleaseRecords e pn remoteTags w =
     (let (rels, w1) = fetchAll pn w;
          w2 = removeFailed pn remoteTags rels w1
      in convertTags e pn remoteTags ([], w2))"

section \<open>addReleaseJobs\<close>

text \<open>String concatenation writes \<^verbatim>\<open>null\<close> for a null value.\<close>

fun jsString :: "string option \<Rightarrow> string" where
  "jsString None = ''null''"
| "jsString (Some s) = s"

text \<open>\<^verbatim>\<open>config.jobs.buildRelease.key + ":" + rel.packageName + ":" + rel.version\<close>.\<close>

definition buildReleaseJobId :: "env \<Rightarrow> string \<Rightarrow> string option \<Rightarrow> string" where
  "buildReleaseJobId e pn v = key (buildRelease e) @ '':'' @ pn @ '':'' @ jsString v"

text \<open>\<^verbatim>\<open>RetryableReleaseReason.includes(reason)\<close> for a reason that may be undefined.\<close>

fun includesReason :: "string list \<Rightarrow> string option \<Rightarrow> bool" where
  "includesReason xs None = False"
| "includesReason xs (Some r) = (r \<in> set xs)"

text \<open>The loop over the releases: the state is the queue and the counter \<^verbatim>\<open>i\<close>.\<close>

fun addReleaseJobsLoop :: "env \<Rightarrow> release list \<Rightarrow> world \<times> nat \<Rightarrow> world \<times> nat" where
  "addReleaseJobsLoop e [] (w, i) = (w, i)"
| "addReleaseJobsLoop e (rel # rels) (w, i) =
     (let reason = releaseReasonGet e (reason rel);
          jobId = buildReleaseJobId e (packageName rel) (version rel);
          (job, w1) = getJob jobId w
      in if job \<noteq> None \<or> state rel = Succeeded \<or>
            (state rel = Failed \<and> \<not> includesReason (retryableReleaseReason e) reason)
         then addReleaseJobsLoop e rels (w1, i)
         else
           (let dt = DelayDate (delay (buildRelease e) * int i);
                (job, w2) = addJob \<lparr>jobId = jobId, jobCfg = buildRelease e,
                                     jobDelay = (if i = 0 then DelayZero else dt)\<rparr> w1
            in addReleaseJobsLoop e rels (w2, i + 1)))"

definition addReleaseJobs :: "env \<Rightarrow> release list \<Rightarrow> world \<Rightarrow> world" where
  "addReleaseJobs e rels w = fst (addReleaseJobsLoop e rels (w, 0))"

section \<open>buildPackage\<close>

text \<open>
  Lines 28 to 34 of \<^verbatim>\<open>buildPackage\<close>: the arrays \<^verbatim>\<open>validTags\<close> (after
  \<^verbatim>\<open>validTags.reverse()\<close>) and \<^verbatim>\<open>invalidTags\<close>.
\<close>

definition validAndInvalidTags ::
  "env \<Rightarrow> package \<Rightarrow> remoteTag list \<Rightarrow> error + remoteTag list \<times> remoteTag list" where
  "validAndInvalidTags e pkg remoteTags =
     (case filterRemoteTags e remoteTags (gitTagIgnore pkg) (gitTagPrefix pkg) of
        Inl err \<Rightarrow> Inl err
      | Inr filtered \<Rightarrow>
          (let validTags = rev filtered;
               invalidTags = difference remoteTags validTags
           in Inr (validTags, invalidTags)))"

definition buildPackage :: "env \<Rightarrow> string \<Rightarrow> world \<Rightarrow> error + world" where
  "buildPackage e nm w =
     (let pkg = loadPackage e nm;
          remoteTags = gitListRemoteTags e (cleanRepoUrl e (repoUrl pkg) ''git'')
      in case validAndInvalidTags e pkg remoteTags of
           Inl err \<Rightarrow> Inl err
         | Inr both \<Rightarrow>
             (let (validTags, invalidTags) = both;
                  w1 = setInvalidTags nm invalidTags w
              in if length validTags = 0 then Inr w1
                 else
                   (let (rels, w2) = updateReleaseRecords e (name pkg) validTags w1
                    in Inr (addReleaseJobs e rels w2))))"

section \<open>Auxiliary definitions and test data\<close>

text \<open>
  What the loop of \<open>removeDuplications\<close> pushes, as a function of the set of versions it
  starts from: the first tag of each version that the set does not hold.
\<close>

fun firstSeen :: "env \<Rightarrow> remoteTag list \<Rightarrow> string option set \<Rightarrow> remoteTag list" where
  "firstSeen e [] vs = []"
| "firstSeen e (x # xs) vs =
     (if getVersionFromTag e (tag x) \<notin> vs
      then x # firstSeen e xs (insert (getVersionFromTag e (tag x)) vs)
      else firstSeen e xs vs)"

text \<open>
  A version parser for the tags of \<^verbatim>\<open>test/app-jobs-buildPackage.js\<close> and two tags that
  match \<open>upmRe\<close>: each tag of the table with its version, no version for any other tag.
\<close>

definition testVersions :: "(string \<times> string) list" where
  "testVersions =
     [(''1.0.2'', ''1.0.2''), (''v1.0.2'', ''1.0.2''), (''1.0.0'', ''1.0.0''),
      (''0.8.0-preview'', ''0.8.0-preview''), (''releases/0.8.1-preview'', ''0.8.1-preview''),
      (''upm/1.0.2'', ''1.0.2''), (''1.0.2-upm'', ''1.0.2'')]"

text \<open>Reason codes 1 and 2 of the test data; only the first is retryable.\<close>

fun testReason :: "nat option \<Rightarrow> string option" where
  "testReason None = None"
| "testReason (Some n) =
     (if n = 1 then Some ''BuildTimeout'' else if n = 2 then Some ''BadRequest'' else None)"

definition testTags :: "remoteTag list" where
  "testTags =
     [\<lparr>objId = 0, tag = ''1.0.2'', commit = ''0000010''\<rparr>,
      \<lparr>objId = 1, tag = ''patch'', commit = ''0000009''\<rparr>,
      \<lparr>objId = 2, tag = ''1.0.0'', commit = ''0000008''\<rparr>,
      \<lparr>objId = 3, tag = ''0.8.0-preview'', commit = ''0000006''\<rparr>,
      \<lparr>objId = 4, tag = ''releases/0.8.1-preview'', commit = ''0000005''\<rparr>]"

definition testPackage :: package where
  "testPackage = \<lparr>name = ''com.example.pkg'', repoUrl = ''https://example.com/pkg'',
                   gitTagIgnore = None, gitTagPrefix = None\<rparr>"

definition testEnv :: env where
  "testEnv =
     \<lparr>getVersionFromTag = map_of testVersions,
      newRegExp_i = (\<lambda>p. None),
      loadPackage = (\<lambda>n. testPackage),
      cleanRepoUrl = (\<lambda>u f. u),
      gitListRemoteTags = (\<lambda>u. testTags),
      buildRelease = \<lparr>key = ''build-rel'', delay = 5\<rparr>,
      releaseReasonGet = testReason,
      retryableReleaseReason = [''BuildTimeout'']\<rparr>"

definition dupTags1 :: "remoteTag list" where
  "dupTags1 = [\<lparr>objId = 0, tag = ''1.0.2'', commit = ''0000010''\<rparr>,
               \<lparr>objId = 1, tag = ''v1.0.2'', commit = ''0000009''\<rparr>]"

definition upmTags :: "remoteTag list" where
  "upmTags =
     [\<lparr>objId = 0, tag = ''upm/1.0.2'', commit = ''0000012''\<rparr>,
      \<lparr>objId = 1, tag = ''1.0.2'', commit = ''0000011''\<rparr>,
      \<lparr>objId = 2, tag = ''1.0.2-upm'', commit = ''0000010''\<rparr>]"

definition twoTags :: "remoteTag list" where
  "twoTags =
     [\<lparr>objId = 0, tag = ''1.0.2'', commit = ''0000010''\<rparr>,
      \<lparr>objId = 1, tag = ''1.0.0'', commit = ''0000008''\<rparr>]"

text \<open>The calls of the second loop of \<open>updateReleaseRecords\<close>: lookups and saves.\<close>

fun isMaterialization :: "event \<Rightarrow> bool" where
  "isMaterialization (FetchOne pn v) = True"
| "isMaterialization (Save r) = True"
| "isMaterialization ev = False"

text \<open>A remote that lists no tag with a version.\<close>

definition noValidEnv :: env where
  "noValidEnv =
     testEnv\<lparr>gitListRemoteTags := (\<lambda>u. [\<lparr>objId = 0, tag = ''patch'', commit = ''0000009''\<rparr>])\<rparr>"

text \<open>
  A store for the package of the test data: a succeeded release, a failed release whose
  commit is no longer the commit of its tag, a failed release that is still listed and
  whose reason is not retryable, and a pending release of a tag that is gone.
\<close>

definition testReleases :: "release list" where
  "testReleases =
     [\<lparr>packageName = ''com.example.pkg'', version = Some ''1.0.2'', relCommit = ''0000010'',
       relTag = ''1.0.2'', state = Succeeded, reason = None\<rparr>,
      \<lparr>packageName = ''com.example.pkg'', version = Some ''1.0.0'', relCommit = ''0000007'',
       relTag = ''1.0.0'', state = Failed, reason = Some 1\<rparr>,
      \<lparr>packageName = ''com.example.pkg'', version = Some ''0.8.0-preview'',
       relCommit = ''0000006'', relTag = ''0.8.0-preview'', state = Failed, reason = Some 2\<rparr>,
      \<lparr>packageName = ''com.example.pkg'', version = Some ''0.9.0'', relCommit = ''0000001'',
       relTag = ''0.9.0'', state = Pending, reason = None\<rparr>]"

definition testWorld :: world where
  "testWorld = \<lparr>releases = testReleases, invalidTags = (\<lambda>n. None), jobs = [], calls = []\<rparr>"

text \<open>The valid tags of the test data as \<open>buildPackage\<close> hands them on.\<close>

definition testValidTags :: "remoteTag list" where
  "testValidTags =
     [\<lparr>objId = 4, tag = ''releases/0.8.1-preview'', commit = ''0000005''\<rparr>,
      \<lparr>objId = 3, tag = ''0.8.0-preview'', commit = ''0000006''\<rparr>,
      \<lparr>objId = 2, tag = ''1.0.0'', commit = ''0000008''\<rparr>,
      \<lparr>objId = 0, tag = ''1.0.2'', commit = ''0000010''\<rparr>]"

text \<open>The tag \<^verbatim>\<open>1.0.2\<close> moved to another commit.\<close>

definition movedTag :: remoteTag where
  "movedTag = \<lparr>objId = 5, tag = ''1.0.2'', commit = ''0000011''\<rparr>"

text \<open>
  Releases to schedule: two pending releases of one version (two tags that match \<open>upmRe\<close>
  may have the same version), a succeeded release, a failed release with a reason that
  is not retryable, a failed release with a retryable reason and another pending release.
\<close>

definition testBatch :: "release list" where
  "testBatch =
     [\<lparr>packageName = ''com.example.pkg'', version = Some ''1.0.2'', relCommit = ''0000012'',
       relTag = ''upm/1.0.2'', state = Pending, reason = None\<rparr>,
      \<lparr>packageName = ''com.example.pkg'', version = Some ''1.0.2'', relCommit = ''0000012'',
       relTag = ''upm/1.0.2'', state = Pending, reason = None\<rparr>,
      \<lparr>packageName = ''com.example.pkg'', version = Some ''1.0.1'', relCommit = ''0000009'',
       relTag = ''1.0.1'', state = Succeeded, reason = None\<rparr>,
      \<lparr>packageName = ''com.example.pkg'', version = Some ''1.0.0'', relCommit = ''0000008'',
       relTag = ''1.0.0'', state = Failed, reason = Some 2\<rparr>,
      \<lparr>packageName = ''com.example.pkg'', version = Some ''0.9.0'', relCommit = ''0000007'',
       relTag = ''0.9.0'', state = Failed, reason = Some 1\<rparr>,
      \<lparr>packageName = ''com.example.pkg'', version = Some ''0.8.0'', relCommit = ''0000006'',
       relTag = ''0.8.0'', state = Pending, reason = None\<rparr>]"

text \<open>The delay the \<open>k\<close>-th job added by one run is given, for a delay of \<open>d\<close> seconds.\<close>

definition staggered :: "int \<Rightarrow> nat \<Rightarrow> jobDelay" where
  "staggered d k = (if k = 0 then DelayZero else DelayDate (d * int k))"

section \<open>Properties of filterRemoteTags\<close>

lemma removeDuplications_fst:
  "fst (removeDuplications e tags (valid, vs)) = valid @ firstSeen e tags vs"
  by (induction tags arbitrary: valid vs) (simp_all add: Let_def)

lemma firstSeen_subset:
  "x \<in> set (firstSeen e tags vs) \<Longrightarrow> x \<in> set tags \<and> getVersionFromTag e (tag x) \<notin> vs"
  by (induction tags arbitrary: vs) (auto split: if_splits)

lemma firstSeen_version:
  "filter (\<lambda>x. getVersionFromTag e (tag x) = v) (firstSeen e tags vs) =
     (if v \<in> vs then []
      else case find (\<lambda>x. getVersionFromTag e (tag x) = v) tags of None \<Rightarrow> [] | Some x \<Rightarrow> [x])"
  by (induction tags arbitrary: vs) (auto split: if_splits)

lemma filterRemoteTags_Inr:
  "filteredTags e remoteTags ign pre = Inr tags \<Longrightarrow>
   filterRemoteTags e remoteTags ign pre = Inr (accumulatedValidTags e tags)"
  by (simp add: filterRemoteTags_def)

lemma accumulatedValidTags_eq:
  "accumulatedValidTags e tags =
     filter (\<lambda>x. upmRe (tag x)) tags @
     firstSeen e tags ((\<lambda>x. getVersionFromTag e (tag x)) ` {x \<in> set tags. upmRe (tag x)})"
  by (simp add: accumulatedValidTags_def Let_def removeDuplications_fst)

lemma firstSeen_not_upm:
  assumes "x \<in> set (firstSeen e tags
             ((\<lambda>x. getVersionFromTag e (tag x)) ` {x \<in> set tags. upmRe (tag x)}))"
  shows "\<not> upmRe (tag x)"
  using firstSeen_subset [OF assms] by auto

lemma upmRe_samples:
  "\<not> upmRe ''1.0.2''" "\<not> upmRe ''v1.0.2''" "\<not> upmRe ''1.0.0''" "\<not> upmRe ''patch''"
  "\<not> upmRe ''0.8.0-preview''" "\<not> upmRe ''releases/0.8.1-preview''"
  "upmRe ''upm/1.0.2''" "upmRe ''1.0.2-upm''"
  by (simp_all add: upmRe_def ciChar_def)

lemma testEnv_version [simp]:
  "getVersionFromTag testEnv ''1.0.2'' = Some ''1.0.2''"
  "getVersionFromTag testEnv ''v1.0.2'' = Some ''1.0.2''"
  "getVersionFromTag testEnv ''1.0.0'' = Some ''1.0.0''"
  "getVersionFromTag testEnv ''patch'' = None"
  "getVersionFromTag testEnv ''0.8.0-preview'' = Some ''0.8.0-preview''"
  "getVersionFromTag testEnv ''releases/0.8.1-preview'' = Some ''0.8.1-preview''"
  "getVersionFromTag testEnv ''upm/1.0.2'' = Some ''1.0.2''"
  "getVersionFromTag testEnv ''1.0.2-upm'' = Some ''1.0.2''"
  by (simp_all add: testEnv_def testVersions_def)

text \<open>
  Claim C6. Among the tags that pass the prefix, semver and ignore filters and do not
  match \<open>upmRe\<close>, the valid tags returned hold at most one tag of each version: none
  when a tag matching \<open>upmRe\<close> has that version, otherwise the first such tag in the
  order of the filtered list. For a parser that gives \<^verbatim>\<open>1.0.2\<close> and \<^verbatim>\<open>v1.0.2\<close> the same
  version, the tags \<^verbatim>\<open>1.0.2\<close>, \<^verbatim>\<open>v1.0.2\<close> yield the first only, and so do
  \<^verbatim>\<open>v1.0.2\<close>, \<^verbatim>\<open>1.0.2\<close>.
\<close>

theorem C6_first_seen_version_wins:
  "(filteredTags e remoteTags ign pre = Inr tags \<longrightarrow>
      (\<exists>valid. filterRemoteTags e remoteTags ign pre = Inr valid \<and>
         (\<forall>v. filter (\<lambda>x. \<not> upmRe (tag x) \<and> getVersionFromTag e (tag x) = v) valid =
            (if \<exists>u. u \<in> set tags \<and> upmRe (tag u) \<and> getVersionFromTag e (tag u) = v then []
             else case find (\<lambda>x. \<not> upmRe (tag x) \<and> getVersionFromTag e (tag x) = v) tags of
                    None \<Rightarrow> [] | Some x \<Rightarrow> [x])))) \<and>
   (getVersionFromTag e ''1.0.2'' \<noteq> None \<and>
    getVersionFromTag e ''v1.0.2'' = getVersionFromTag e ''1.0.2'' \<longrightarrow>
      filterRemoteTags e
        [\<lparr>objId = a, tag = ''1.0.2'', commit = ''0000010''\<rparr>,
         \<lparr>objId = b, tag = ''v1.0.2'', commit = ''0000009''\<rparr>] None None =
        Inr [\<lparr>objId = a, tag = ''1.0.2'', commit = ''0000010''\<rparr>] \<and>
      filterRemoteTags e
        [\<lparr>objId = a, tag = ''v1.0.2'', commit = ''0000010''\<rparr>,
         \<lparr>objId = b, tag = ''1.0.2'', commit = ''0000009''\<rparr>] None None =
        Inr [\<lparr>objId = a, tag = ''v1.0.2'', commit = ''0000010''\<rparr>])"
proof (intro conjI impI)
  assume ft: "filteredTags e remoteTags ign pre = Inr tags"
  let ?gv = "\<lambda>x. getVersionFromTag e (tag x)"
  let ?vs = "?gv ` {x \<in> set tags. upmRe (tag x)}"
  have "filter (\<lambda>x. \<not> upmRe (tag x) \<and> ?gv x = v) (accumulatedValidTags e tags) =
          (if \<exists>u. u \<in> set tags \<and> upmRe (tag u) \<and> ?gv u = v then []
           else case find (\<lambda>x. \<not> upmRe (tag x) \<and> ?gv x = v) tags of
                  None \<Rightarrow> [] | Some x \<Rightarrow> [x])" for v
  proof -
    have a: "filter (\<lambda>x. \<not> upmRe (tag x) \<and> ?gv x = v) (filter (\<lambda>x. upmRe (tag x)) tags) = []"
      by (simp add: filter_empty_conv)
    have b: "filter (\<lambda>x. \<not> upmRe (tag x) \<and> ?gv x = v) (firstSeen e tags ?vs) =
             filter (\<lambda>x. ?gv x = v) (firstSeen e tags ?vs)"
      by (rule filter_cong) (auto dest: firstSeen_not_upm)
    have c: "(v \<in> ?vs) = (\<exists>u. u \<in> set tags \<and> upmRe (tag u) \<and> ?gv u = v)"
      by auto
    have d: "find (\<lambda>x. ?gv x = v) tags = find (\<lambda>x. \<not> upmRe (tag x) \<and> ?gv x = v) tags"
      if "v \<notin> ?vs"
      by (rule find_cong) (use that in auto)
    show ?thesis
    proof (cases "v \<in> ?vs")
      case True
      then show ?thesis
        unfolding accumulatedValidTags_eq filter_append a b firstSeen_version c [symmetric]
        by simp
    next
      case False
      then show ?thesis
        unfolding accumulatedValidTags_eq filter_append a b firstSeen_version c [symmetric]
        by (simp add: d)
    qed
  qed
  with ft show "\<exists>valid. filterRemoteTags e remoteTags ign pre = Inr valid \<and>
         (\<forall>v. filter (\<lambda>x. \<not> upmRe (tag x) \<and> ?gv x = v) valid =
            (if \<exists>u. u \<in> set tags \<and> upmRe (tag u) \<and> ?gv u = v then []
             else case find (\<lambda>x. \<not> upmRe (tag x) \<and> ?gv x = v) tags of
                    None \<Rightarrow> [] | Some x \<Rightarrow> [x]))"
    by (simp add: filterRemoteTags_Inr)
next
  assume h: "getVersionFromTag e ''1.0.2'' \<noteq> None \<and>
    getVersionFromTag e ''v1.0.2'' = getVersionFromTag e ''1.0.2''"
  then show "filterRemoteTags e
        [\<lparr>objId = a, tag = ''1.0.2'', commit = ''0000010''\<rparr>,
         \<lparr>objId = b, tag = ''v1.0.2'', commit = ''0000009''\<rparr>] None None =
        Inr [\<lparr>objId = a, tag = ''1.0.2'', commit = ''0000010''\<rparr>]"
    by (simp add: filterRemoteTags_def filteredTags_def accumulatedValidTags_def upmRe_samples)
next
  assume h: "getVersionFromTag e ''1.0.2'' \<noteq> None \<and>
    getVersionFromTag e ''v1.0.2'' = getVersionFromTag e ''1.0.2''"
  then show "filterRemoteTags e
        [\<lparr>objId = a, tag = ''v1.0.2'', commit = ''0000010''\<rparr>,
         \<lparr>objId = b, tag = ''1.0.2'', commit = ''0000009''\<rparr>] None None =
        Inr [\<lparr>objId = a, tag = ''v1.0.2'', commit = ''0000010''\<rparr>]"
    by (simp add: filterRemoteTags_def filteredTags_def accumulatedValidTags_def upmRe_samples)
qed

theorem C6_first_seen_version_wins_witness:
  "filteredTags testEnv dupTags1 None None = Inr dupTags1 \<and>
   filterRemoteTags testEnv dupTags1 None None = Inr [\<lparr>objId = 0, tag = ''1.0.2'', commit = ''0000010''\<rparr>] \<and>
   filter (\<lambda>x. \<not> upmRe (tag x) \<and> getVersionFromTag testEnv (tag x) = Some ''1.0.2'')
     [\<lparr>objId = 0, tag = ''1.0.2'', commit = ''0000010''\<rparr>] =
     [\<lparr>objId = 0, tag = ''1.0.2'', commit = ''0000010''\<rparr>] \<and>
   filterRemoteTags testEnv
        [\<lparr>objId = 0, tag = ''v1.0.2'', commit = ''0000010''\<rparr>,
         \<lparr>objId = 1, tag = ''1.0.2'', commit = ''0000009''\<rparr>] None None =
        Inr [\<lparr>objId = 0, tag = ''v1.0.2'', commit = ''0000010''\<rparr>]"
proof -
  have f: "filteredTags testEnv dupTags1 None None = Inr dupTags1"
    by (simp add: filteredTags_def dupTags1_def)
  have g: "getVersionFromTag testEnv ''1.0.2'' \<noteq> None \<and>
    getVersionFromTag testEnv ''v1.0.2'' = getVersionFromTag testEnv ''1.0.2''"
    by simp
  from C6_first_seen_version_wins [of testEnv dupTags1 None None dupTags1 0 1] f g
  show ?thesis
    by (simp add: dupTags1_def upmRe_samples)
qed

text \<open>
  Claim C7. Every filtered tag that matches \<open>upmRe\<close> is in the valid tags returned, in
  the order of the filtered list and ahead of the other tags: when two of them (or more)
  have the same version, all of them are returned; only tags that do not match \<open>upmRe\<close>
  are dropped for their version.
\<close>

theorem C7_upm_tags_all_kept:
  assumes "filteredTags e remoteTags ign pre = Inr tags"
  shows "\<exists>valid rest. filterRemoteTags e remoteTags ign pre = Inr valid \<and>
           valid = filter (\<lambda>x. upmRe (tag x)) tags @ rest \<and>
           filter (\<lambda>x. upmRe (tag x)) rest = [] \<and>
           (\<forall>x y. x \<in> set tags \<and> y \<in> set tags \<and> upmRe (tag x) \<and> upmRe (tag y) \<and>
                  getVersionFromTag e (tag x) = getVersionFromTag e (tag y) \<longrightarrow>
                  x \<in> set valid \<and> y \<in> set valid)"
proof -
  let ?rest = "firstSeen e tags ((\<lambda>x. getVersionFromTag e (tag x)) ` {x \<in> set tags. upmRe (tag x)})"
  have "filter (\<lambda>x. upmRe (tag x)) ?rest = []"
    unfolding filter_empty_conv using firstSeen_not_upm by blast
  moreover have "filterRemoteTags e remoteTags ign pre =
      Inr (filter (\<lambda>x. upmRe (tag x)) tags @ ?rest)"
    using assms by (simp add: filterRemoteTags_Inr accumulatedValidTags_eq)
  moreover have "x \<in> set (filter (\<lambda>x. upmRe (tag x)) tags @ ?rest)"
    if "x \<in> set tags" "upmRe (tag x)" for x
    using that by simp
  ultimately show ?thesis
    by blast
qed

theorem C7_upm_tags_all_kept_witness:
  "filteredTags testEnv upmTags None None = Inr upmTags \<and>
   filterRemoteTags testEnv upmTags None None =
     Inr [\<lparr>objId = 0, tag = ''upm/1.0.2'', commit = ''0000012''\<rparr>,
          \<lparr>objId = 2, tag = ''1.0.2-upm'', commit = ''0000010''\<rparr>] \<and>
   getVersionFromTag testEnv ''upm/1.0.2'' = getVersionFromTag testEnv ''1.0.2-upm''"
proof -
  have f: "filteredTags testEnv upmTags None None = Inr upmTags"
    by (simp add: filteredTags_def upmTags_def)
  from C7_upm_tags_all_kept [OF f] obtain valid rest where
    v: "filterRemoteTags testEnv upmTags None None = Inr valid"
       "valid = filter (\<lambda>x. upmRe (tag x)) upmTags @ rest"
       "filter (\<lambda>x. upmRe (tag x)) rest = []"
    by blast
  have "filterRemoteTags testEnv upmTags None None =
     Inr [\<lparr>objId = 0, tag = ''upm/1.0.2'', commit = ''0000012''\<rparr>,
          \<lparr>objId = 2, tag = ''1.0.2-upm'', commit = ''0000010''\<rparr>]"
    unfolding filterRemoteTags_Inr [OF f]
    by (simp add: accumulatedValidTags_def upmTags_def upmRe_samples)
  with f show ?thesis by simp
qed

lemma testEnv_fields [simp]:
  "loadPackage testEnv n = testPackage"
  "gitListRemoteTags testEnv u = testTags"
  "cleanRepoUrl testEnv u f = u"
  "buildRelease testEnv = \<lparr>key = ''build-rel'', delay = 5\<rparr>"
  "releaseReasonGet testEnv = testReason"
  "retryableReleaseReason testEnv = [''BuildTimeout'']"
  "newRegExp_i testEnv p = None"
  by (simp_all add: testEnv_def)

lemma testPackage_fields [simp]:
  "name testPackage = ''com.example.pkg''"
  "repoUrl testPackage = ''https://example.com/pkg''"
  "gitTagIgnore testPackage = None"
  "gitTagPrefix testPackage = None"
  by (simp_all add: testPackage_def)

lemma testTags_filtered:
  "filteredTags testEnv testTags None None =
     Inr [\<lparr>objId = 0, tag = ''1.0.2'', commit = ''0000010''\<rparr>,
      \<lparr>objId = 2, tag = ''1.0.0'', commit = ''0000008''\<rparr>,
      \<lparr>objId = 3, tag = ''0.8.0-preview'', commit = ''0000006''\<rparr>,
      \<lparr>objId = 4, tag = ''releases/0.8.1-preview'', commit = ''0000005''\<rparr>]"
  by (simp add: filteredTags_def testTags_def)

text \<open>
  Claim C1, as stated, fails: \<open>filterRemoteTags\<close> returns the list in the order in which
  the passes build it. For the tags \<^verbatim>\<open>1.0.2\<close>, \<^verbatim>\<open>1.0.0\<close> it returns them in this order,
  which is not the reverse of the accumulated list.
\<close>

theorem C1_reverse_inside_filter_counterexample:
  "filteredTags testEnv twoTags None None = Inr twoTags \<and>
   accumulatedValidTags testEnv twoTags =
     [\<lparr>objId = 0, tag = ''1.0.2'', commit = ''0000010''\<rparr>,
      \<lparr>objId = 1, tag = ''1.0.0'', commit = ''0000008''\<rparr>] \<and>
   filterRemoteTags testEnv twoTags None None =
     Inr [\<lparr>objId = 0, tag = ''1.0.2'', commit = ''0000010''\<rparr>,
          \<lparr>objId = 1, tag = ''1.0.0'', commit = ''0000008''\<rparr>] \<and>
   filterRemoteTags testEnv twoTags None None \<noteq>
     Inr (rev (accumulatedValidTags testEnv twoTags))"
  by (simp add: filterRemoteTags_def filteredTags_def accumulatedValidTags_def twoTags_def
      upmRe_samples)

text \<open>
  Claim C1, amended. \<open>filterRemoteTags\<close> returns the valid tags in construction order
  (the filtered tags that match \<open>upmRe\<close>, then the first tag of each version not yet
  seen); the reverse is applied by the caller \<open>buildPackage\<close> after the function has
  returned, and the reversed list is the one from which the invalid tags are computed
  and which \<open>updateReleaseRecords\<close> receives.
\<close>

theorem C1_reverse_in_buildPackage:
  assumes "filteredTags e (gitListRemoteTags e (cleanRepoUrl e (repoUrl (loadPackage e nm)) ''git''))
             (gitTagIgnore (loadPackage e nm)) (gitTagPrefix (loadPackage e nm)) = Inr tags"
  shows "filterRemoteTags e (gitListRemoteTags e (cleanRepoUrl e (repoUrl (loadPackage e nm)) ''git''))
             (gitTagIgnore (loadPackage e nm)) (gitTagPrefix (loadPackage e nm)) =
           Inr (accumulatedValidTags e tags) \<and>
         accumulatedValidTags e tags =
           filter (\<lambda>x. upmRe (tag x)) tags @
           firstSeen e tags ((\<lambda>x. getVersionFromTag e (tag x)) ` {x \<in> set tags. upmRe (tag x)}) \<and>
         validAndInvalidTags e (loadPackage e nm)
             (gitListRemoteTags e (cleanRepoUrl e (repoUrl (loadPackage e nm)) ''git'')) =
           Inr (rev (accumulatedValidTags e tags),
                difference (gitListRemoteTags e (cleanRepoUrl e (repoUrl (loadPackage e nm)) ''git''))
                  (rev (accumulatedValidTags e tags))) \<and>
         buildPackage e nm w =
           (let validTags = rev (accumulatedValidTags e tags);
                w1 = setInvalidTags nm
                       (difference (gitListRemoteTags e (cleanRepoUrl e (repoUrl (loadPackage e nm)) ''git''))
                          validTags) w
            in if validTags = [] then Inr w1
               else Inr (addReleaseJobs e
                      (fst (updateReleaseRecords e (name (loadPackage e nm)) validTags w1))
                      (snd (updateReleaseRecords e (name (loadPackage e nm)) validTags w1))))"
  using assms
  by (simp add: filterRemoteTags_Inr accumulatedValidTags_eq validAndInvalidTags_def
      buildPackage_def Let_def split_beta)

theorem C1_reverse_in_buildPackage_witness:
  "filterRemoteTags testEnv testTags None None =
     Inr [\<lparr>objId = 0, tag = ''1.0.2'', commit = ''0000010''\<rparr>,
      \<lparr>objId = 2, tag = ''1.0.0'', commit = ''0000008''\<rparr>,
      \<lparr>objId = 3, tag = ''0.8.0-preview'', commit = ''0000006''\<rparr>,
      \<lparr>objId = 4, tag = ''releases/0.8.1-preview'', commit = ''0000005''\<rparr>] \<and>
   validAndInvalidTags testEnv testPackage testTags =
     Inr ([\<lparr>objId = 4, tag = ''releases/0.8.1-preview'', commit = ''0000005''\<rparr>,
           \<lparr>objId = 3, tag = ''0.8.0-preview'', commit = ''0000006''\<rparr>,
           \<lparr>objId = 2, tag = ''1.0.0'', commit = ''0000008''\<rparr>,
           \<lparr>objId = 0, tag = ''1.0.2'', commit = ''0000010''\<rparr>],
          [\<lparr>objId = 1, tag = ''patch'', commit = ''0000009''\<rparr>])"
proof -
  have acc: "accumulatedValidTags testEnv
     [\<lparr>objId = 0, tag = ''1.0.2'', commit = ''0000010''\<rparr>,
      \<lparr>objId = 2, tag = ''1.0.0'', commit = ''0000008''\<rparr>,
      \<lparr>objId = 3, tag = ''0.8.0-preview'', commit = ''0000006''\<rparr>,
      \<lparr>objId = 4, tag = ''releases/0.8.1-preview'', commit = ''0000005''\<rparr>] =
     [\<lparr>objId = 0, tag = ''1.0.2'', commit = ''0000010''\<rparr>,
      \<lparr>objId = 2, tag = ''1.0.0'', commit = ''0000008''\<rparr>,
      \<lparr>objId = 3, tag = ''0.8.0-preview'', commit = ''0000006''\<rparr>,
      \<lparr>objId = 4, tag = ''releases/0.8.1-preview'', commit = ''0000005''\<rparr>]"
    by (simp add: accumulatedValidTags_def upmRe_samples)
  have d: "difference testTags
     [\<lparr>objId = 4, tag = ''releases/0.8.1-preview'', commit = ''0000005''\<rparr>,
           \<lparr>objId = 3, tag = ''0.8.0-preview'', commit = ''0000006''\<rparr>,
           \<lparr>objId = 2, tag = ''1.0.0'', commit = ''0000008''\<rparr>,
           \<lparr>objId = 0, tag = ''1.0.2'', commit = ''0000010''\<rparr>] =
       [\<lparr>objId = 1, tag = ''patch'', commit = ''0000009''\<rparr>]"
    by (simp add: difference_def testTags_def)
  from C1_reverse_in_buildPackage [of testEnv "''com.example.pkg''", simplified, OF testTags_filtered]
  show ?thesis
    by (simp add: acc d)
qed

text \<open>
  Claim C2, as stated, fails: the list in the order \<^verbatim>\<open>1.0.2\<close>, \<^verbatim>\<open>1.0.0\<close>,
  \<^verbatim>\<open>0.8.0-preview\<close>, \<^verbatim>\<open>releases/0.8.1-preview\<close> is not the list after the reverse.
  After \<^verbatim>\<open>validTags.reverse()\<close> the valid tags of the test data are in the opposite
  order.
\<close>

theorem C2_after_reverse_counterexample:
  "validAndInvalidTags testEnv testPackage testTags =
     Inr ([\<lparr>objId = 4, tag = ''releases/0.8.1-preview'', commit = ''0000005''\<rparr>,
           \<lparr>objId = 3, tag = ''0.8.0-preview'', commit = ''0000006''\<rparr>,
           \<lparr>objId = 2, tag = ''1.0.0'', commit = ''0000008''\<rparr>,
           \<lparr>objId = 0, tag = ''1.0.2'', commit = ''0000010''\<rparr>],
          [\<lparr>objId = 1, tag = ''patch'', commit = ''0000009''\<rparr>]) \<and>
   [\<lparr>objId = 4, tag = ''releases/0.8.1-preview'', commit = ''0000005''\<rparr>,
    \<lparr>objId = 3, tag = ''0.8.0-preview'', commit = ''0000006''\<rparr>,
    \<lparr>objId = 2, tag = ''1.0.0'', commit = ''0000008''\<rparr>,
    \<lparr>objId = 0, tag = ''1.0.2'', commit = ''0000010''\<rparr>] \<noteq>
   [\<lparr>objId = 0, tag = ''1.0.2'', commit = ''0000010''\<rparr>,
    \<lparr>objId = 2, tag = ''1.0.0'', commit = ''0000008''\<rparr>,
    \<lparr>objId = 3, tag = ''0.8.0-preview'', commit = ''0000006''\<rparr>,
    \<lparr>objId = 4, tag = ''releases/0.8.1-preview'', commit = ''0000005''\<rparr>]"
  by (simp add: validAndInvalidTags_def filterRemoteTags_def filteredTags_def
      accumulatedValidTags_def difference_def testTags_def upmRe_samples)

text \<open>
  Claim C2, amended. With no prefix and no ignore pattern, and a parser that gives
  \<^verbatim>\<open>patch\<close> no version and the four other tags four versions, \<open>filterRemoteTags\<close>
  returns \<^verbatim>\<open>1.0.2\<close>, \<^verbatim>\<open>1.0.0\<close>, \<^verbatim>\<open>0.8.0-preview\<close>, \<^verbatim>\<open>releases/0.8.1-preview\<close> in
  this order, before the reverse; after the reverse in \<open>buildPackage\<close> the valid tags are
  the same tags in the opposite order, and \<^verbatim>\<open>patch\<close> is the invalid tag.
\<close>

theorem C2_simple_tags_before_reverse:
  assumes "getVersionFromTag e ''patch'' = None"
    and "list_all (\<lambda>t. getVersionFromTag e t \<noteq> None)
           [''1.0.2'', ''1.0.0'', ''0.8.0-preview'', ''releases/0.8.1-preview'']"
    and "distinct (map (getVersionFromTag e)
           [''1.0.2'', ''1.0.0'', ''0.8.0-preview'', ''releases/0.8.1-preview''])"
    and "gitTagIgnore pkg = None" and "gitTagPrefix pkg = None"
  shows "filterRemoteTags e testTags None None =
           Inr [\<lparr>objId = 0, tag = ''1.0.2'', commit = ''0000010''\<rparr>,
                \<lparr>objId = 2, tag = ''1.0.0'', commit = ''0000008''\<rparr>,
                \<lparr>objId = 3, tag = ''0.8.0-preview'', commit = ''0000006''\<rparr>,
                \<lparr>objId = 4, tag = ''releases/0.8.1-preview'', commit = ''0000005''\<rparr>] \<and>
         validAndInvalidTags e pkg testTags =
           Inr ([\<lparr>objId = 4, tag = ''releases/0.8.1-preview'', commit = ''0000005''\<rparr>,
                 \<lparr>objId = 3, tag = ''0.8.0-preview'', commit = ''0000006''\<rparr>,
                 \<lparr>objId = 2, tag = ''1.0.0'', commit = ''0000008''\<rparr>,
                 \<lparr>objId = 0, tag = ''1.0.2'', commit = ''0000010''\<rparr>],
                [\<lparr>objId = 1, tag = ''patch'', commit = ''0000009''\<rparr>])"
proof -
  let ?gv = "getVersionFromTag e"
  have some: "?gv ''1.0.2'' \<noteq> None" "?gv ''1.0.0'' \<noteq> None"
    "?gv ''0.8.0-preview'' \<noteq> None" "?gv ''releases/0.8.1-preview'' \<noteq> None"
    using assms(2) by simp_all
  have ne: "?gv ''1.0.0'' \<noteq> ?gv ''1.0.2''"
    "?gv ''0.8.0-preview'' \<noteq> ?gv ''1.0.2''" "?gv ''0.8.0-preview'' \<noteq> ?gv ''1.0.0''"
    "?gv ''releases/0.8.1-preview'' \<noteq> ?gv ''1.0.2''"
    "?gv ''releases/0.8.1-preview'' \<noteq> ?gv ''1.0.0''"
    "?gv ''releases/0.8.1-preview'' \<noteq> ?gv ''0.8.0-preview''"
    using assms(3) by auto
  have ft: "filteredTags e testTags None None =
           Inr [\<lparr>objId = 0, tag = ''1.0.2'', commit = ''0000010''\<rparr>,
                \<lparr>objId = 2, tag = ''1.0.0'', commit = ''0000008''\<rparr>,
                \<lparr>objId = 3, tag = ''0.8.0-preview'', commit = ''0000006''\<rparr>,
                \<lparr>objId = 4, tag = ''releases/0.8.1-preview'', commit = ''0000005''\<rparr>]"
    using assms(1) some by (simp add: filteredTags_def testTags_def)
  have acc: "accumulatedValidTags e
               [\<lparr>objId = 0, tag = ''1.0.2'', commit = ''0000010''\<rparr>,
                \<lparr>objId = 2, tag = ''1.0.0'', commit = ''0000008''\<rparr>,
                \<lparr>objId = 3, tag = ''0.8.0-preview'', commit = ''0000006''\<rparr>,
                \<lparr>objId = 4, tag = ''releases/0.8.1-preview'', commit = ''0000005''\<rparr>] =
               [\<lparr>objId = 0, tag = ''1.0.2'', commit = ''0000010''\<rparr>,
                \<lparr>objId = 2, tag = ''1.0.0'', commit = ''0000008''\<rparr>,
                \<lparr>objId = 3, tag = ''0.8.0-preview'', commit = ''0000006''\<rparr>,
                \<lparr>objId = 4, tag = ''releases/0.8.1-preview'', commit = ''0000005''\<rparr>]"
    using ne by (simp add: accumulatedValidTags_def upmRe_samples Let_def)
  show ?thesis
    unfolding validAndInvalidTags_def assms(4,5) filterRemoteTags_Inr [OF ft] acc
    by (simp add: difference_def testTags_def)
qed

theorem C2_simple_tags_before_reverse_witness:
  "getVersionFromTag testEnv ''patch'' = None \<and>
   filterRemoteTags testEnv testTags None None =
     Inr [\<lparr>objId = 0, tag = ''1.0.2'', commit = ''0000010''\<rparr>,
          \<lparr>objId = 2, tag = ''1.0.0'', commit = ''0000008''\<rparr>,
          \<lparr>objId = 3, tag = ''0.8.0-preview'', commit = ''0000006''\<rparr>,
          \<lparr>objId = 4, tag = ''releases/0.8.1-preview'', commit = ''0000005''\<rparr>] \<and>
   map_sum id snd (validAndInvalidTags testEnv testPackage testTags) =
     Inr [\<lparr>objId = 1, tag = ''patch'', commit = ''0000009''\<rparr>]"
  using C2_simple_tags_before_reverse [of testEnv testPackage]
  by simp

section \<open>Properties of updateReleaseRecords\<close>

lemma listed_iff:
  "listed rts r = (\<exists>x. x \<in> set rts \<and> tag x = relTag r \<and> commit x = relCommit r)"
  by (auto simp: listed_def find_None_iff)

lemma removeFailed_calls:
  "calls (removeFailed pn rts rels w) =
     calls w @ map (\<lambda>r. RemoveRelease pn (version r))
                 (filter (\<lambda>r. state r = Failed \<and> \<not> listed rts r) rels)"
  by (induction rels arbitrary: w) (simp_all add: removeRelease_def)

lemma removeFailed_releases:
  "releases (removeFailed pn rts rels w) =
     filter (\<lambda>x. \<not> (packageName x = pn \<and>
                     (\<exists>r. r \<in> set rels \<and> state r = Failed \<and> \<not> listed rts r \<and> version r = version x)))
       (releases w)"
proof (induction rels arbitrary: w)
  case Nil
  then show ?case by simp
next
  case (Cons rel rels)
  show ?case
    by (auto simp: Cons.IH removeRelease_def intro!: filter_cong)
qed

lemma convertTags_append:
  "convertTags e pn (xs @ ys) s = convertTags e pn ys (convertTags e pn xs s)"
proof (induction xs arbitrary: s)
  case Nil
  then show ?case by (cases s) simp
next
  case (Cons x xs)
  obtain rels w where s: "s = (rels, w)" by (cases s)
  show ?case
    unfolding s by (simp add: Cons.IH Let_def split: option.split prod.split)
qed

lemma filter_absent:
  "find P xs = None \<Longrightarrow> filter (\<lambda>x. \<not> P x) xs = xs"
  by (simp add: find_None_iff)

lemma convertTags_found:
  assumes "find (\<lambda>r. packageName r = pn \<and> version r = getVersionFromTag e (tag t)) (releases w) = Some r"
  shows "convertTags e pn [t] (rels, w) =
           (rels @ [r], w\<lparr>calls := calls w @ [FetchOne pn (getVersionFromTag e (tag t))]\<rparr>)"
  using assms by (simp add: fetchOne_def)

lemma convertTags_absent:
  assumes "find (\<lambda>r. packageName r = pn \<and> version r = getVersionFromTag e (tag t)) (releases w) = None"
  shows "convertTags e pn [t] (rels, w) =
           (rels @ [\<lparr>packageName = pn, version = getVersionFromTag e (tag t),
                      relCommit = commit t, relTag = tag t, state = Pending, reason = None\<rparr>],
            w\<lparr>releases := releases w @
                  [\<lparr>packageName = pn, version = getVersionFromTag e (tag t),
                    relCommit = commit t, relTag = tag t, state = Pending, reason = None\<rparr>],
              calls := calls w @
                  [FetchOne pn (getVersionFromTag e (tag t)),
                   Save \<lparr>packageName = pn, version = getVersionFromTag e (tag t),
                         relCommit = commit t, relTag = tag t, state = Pending, reason = None\<rparr>]\<rparr>)"
  using assms filter_absent [OF assms]
  by (simp add: fetchOne_def save_def Let_def)

lemma convertTags_frame:
  "\<exists>new evs added. convertTags e pn tags (rels, w) =
      (rels @ added, w\<lparr>releases := releases w @ new, calls := calls w @ evs\<rparr>) \<and>
      length added = length tags \<and> filter (\<lambda>ev. \<not> isMaterialization ev) evs = []"
proof (induction tags arbitrary: rels w)
  case Nil
  have "convertTags e pn [] (rels, w) =
      (rels @ [], w\<lparr>releases := releases w @ [], calls := calls w @ []\<rparr>)"
    by simp
  moreover have "length ([] :: release list) = length ([] :: remoteTag list)"
    "filter (\<lambda>ev. \<not> isMaterialization ev) [] = []"
    by simp_all
  ultimately show ?case by blast
next
  case (Cons t tags)
  let ?P = "\<lambda>r. packageName r = pn \<and> version r = getVersionFromTag e (tag t)"
  have split: "convertTags e pn (t # tags) (rels, w) =
      convertTags e pn tags (convertTags e pn [t] (rels, w))"
    using convertTags_append [of e pn "[t]" tags "(rels, w)"] by simp
  show ?case
  proof (cases "find ?P (releases w)")
    case None
    let ?r = "\<lparr>packageName = pn, version = getVersionFromTag e (tag t),
                      relCommit = commit t, relTag = tag t, state = Pending, reason = None\<rparr>"
    let ?w1 = "w\<lparr>releases := releases w @ [?r],
              calls := calls w @ [FetchOne pn (getVersionFromTag e (tag t)), Save ?r]\<rparr>"
    from Cons.IH [of "rels @ [?r]" ?w1] obtain new evs added where
      ih: "convertTags e pn tags (rels @ [?r], ?w1) =
             ((rels @ [?r]) @ added, ?w1\<lparr>releases := releases ?w1 @ new, calls := calls ?w1 @ evs\<rparr>)"
          "length added = length tags" "filter (\<lambda>ev. \<not> isMaterialization ev) evs = []"
      by blast
    have "convertTags e pn (t # tags) (rels, w) =
        (rels @ (?r # added),
         w\<lparr>releases := releases w @ (?r # new),
           calls := calls w @ (FetchOne pn (getVersionFromTag e (tag t)) # Save ?r # evs)\<rparr>)"
      unfolding split convertTags_absent [OF None] ih(1) by simp
    moreover have "length (?r # added) = length (t # tags)"
      using ih(2) by simp
    moreover have "filter (\<lambda>ev. \<not> isMaterialization ev)
        (FetchOne pn (getVersionFromTag e (tag t)) # Save ?r # evs) = []"
      using ih(3) by simp
    ultimately show ?thesis by blast
  next
    case (Some r)
    let ?w1 = "w\<lparr>calls := calls w @ [FetchOne pn (getVersionFromTag e (tag t))]\<rparr>"
    from Cons.IH [of "rels @ [r]" ?w1] obtain new evs added where
      ih: "convertTags e pn tags (rels @ [r], ?w1) =
             ((rels @ [r]) @ added, ?w1\<lparr>releases := releases ?w1 @ new, calls := calls ?w1 @ evs\<rparr>)"
          "length added = length tags" "filter (\<lambda>ev. \<not> isMaterialization ev) evs = []"
      by blast
    have "convertTags e pn (t # tags) (rels, w) =
        (rels @ (r # added),
         w\<lparr>releases := releases w @ new,
           calls := calls w @ (FetchOne pn (getVersionFromTag e (tag t)) # evs)\<rparr>)"
      unfolding split convertTags_found [OF Some] ih(1) by simp
    moreover have "length (r # added) = length (t # tags)"
      using ih(2) by simp
    moreover have "filter (\<lambda>ev. \<not> isMaterialization ev)
        (FetchOne pn (getVersionFromTag e (tag t)) # evs) = []"
      using ih(3) by simp
    ultimately show ?thesis by blast
  qed
qed

lemma updateReleaseRecords_eq:
  "updateReleaseRecords e pn remoteTags w =
     convertTags e pn remoteTags
       ([], removeFailed pn remoteTags (filter (\<lambda>r. packageName r = pn) (releases w))
              (w\<lparr>calls := calls w @ [FetchAll pn]\<rparr>))"
  by (simp add: updateReleaseRecords_def fetchAll_def)

text \<open>
  Claim C3. The calls of \<open>updateReleaseRecords\<close> are the fetch of the package's
  releases, then one call of the removal routine with (packageName, version) for each
  of these releases that is Failed and has no entry of the valid tags with its tag and
  its commit, in the order of the store and for no other release, and only then the
  lookups and saves of the second loop. A release of the store whose (packageName,
  version) is not that of such a stale failed release is still in the store afterwards.
\<close>

theorem C3_stale_failed_removed_first:
  "\<exists>evs. calls (snd (updateReleaseRecords e pn remoteTags w)) =
      calls w @ [FetchAll pn] @
      map (\<lambda>r. RemoveRelease pn (version r))
        (filter (\<lambda>r. packageName r = pn \<and> state r = Failed \<and>
                   \<not> (\<exists>x. x \<in> set remoteTags \<and> tag x = relTag r \<and> commit x = relCommit r))
           (releases w)) @ evs \<and>
      filter (\<lambda>ev. \<not> isMaterialization ev) evs = [] \<and>
      (\<forall>r. r \<in> set (releases w) \<and>
           \<not> (packageName r = pn \<and>
              (\<exists>s. s \<in> set (releases w) \<and> packageName s = pn \<and> state s = Failed \<and>
                   \<not> (\<exists>x. x \<in> set remoteTags \<and> tag x = relTag s \<and> commit x = relCommit s) \<and>
                   version s = version r)) \<longrightarrow>
           r \<in> set (releases (snd (updateReleaseRecords e pn remoteTags w))))"
proof -
  let ?stale = "\<lambda>r. state r = Failed \<and>
                   \<not> (\<exists>x. x \<in> set remoteTags \<and> tag x = relTag r \<and> commit x = relCommit r)"
  let ?all = "filter (\<lambda>r. packageName r = pn) (releases w)"
  let ?w1 = "w\<lparr>calls := calls w @ [FetchAll pn]\<rparr>"
  let ?w2 = "removeFailed pn remoteTags ?all ?w1"
  from convertTags_frame [of e pn remoteTags "[]" ?w2] obtain new evs added where
    conv: "convertTags e pn remoteTags ([], ?w2) =
             ([] @ added, ?w2\<lparr>releases := releases ?w2 @ new, calls := calls ?w2 @ evs\<rparr>)"
      and evs: "filter (\<lambda>ev. \<not> isMaterialization ev) evs = []"
    by blast
  have c2: "calls ?w2 = calls w @ [FetchAll pn] @
      map (\<lambda>r. RemoveRelease pn (version r))
        (filter (\<lambda>r. packageName r = pn \<and> ?stale r) (releases w))"
    by (simp add: removeFailed_calls listed_iff)
  have r2: "releases ?w2 =
      filter (\<lambda>x. \<not> (packageName x = pn \<and>
                (\<exists>s. s \<in> set (releases w) \<and> packageName s = pn \<and> ?stale s \<and>
                     version s = version x))) (releases w)"
    unfolding removeFailed_releases listed_iff
    by (rule filter_cong) auto
  have calls: "calls (snd (updateReleaseRecords e pn remoteTags w)) =
      calls w @ [FetchAll pn] @
      map (\<lambda>r. RemoveRelease pn (version r))
        (filter (\<lambda>r. packageName r = pn \<and> ?stale r) (releases w)) @ evs"
    unfolding updateReleaseRecords_eq conv using c2 by simp
  have kept: "r \<in> set (releases (snd (updateReleaseRecords e pn remoteTags w)))"
    if "r \<in> set (releases w)"
      "\<not> (packageName r = pn \<and>
          (\<exists>s. s \<in> set (releases w) \<and> packageName s = pn \<and> ?stale s \<and> version s = version r))"
    for r
  proof -
    have "r \<in> set (releases ?w2)"
      unfolding r2 using that by simp
    then show ?thesis
      unfolding updateReleaseRecords_eq conv by simp
  qed
  from calls evs kept show ?thesis
    by blast
qed

lemma testWorld_fields [simp]:
  "releases testWorld = testReleases" "jobs testWorld = []" "calls testWorld = []"
  "invalidTags testWorld = (\<lambda>n. None)"
  by (simp_all add: testWorld_def)

lemma testWorld_updateReleaseRecords:
  "updateReleaseRecords testEnv ''com.example.pkg'' testValidTags testWorld =
     ([\<lparr>packageName = ''com.example.pkg'', version = Some ''0.8.1-preview'',
        relCommit = ''0000005'', relTag = ''releases/0.8.1-preview'', state = Pending,
        reason = None\<rparr>,
       \<lparr>packageName = ''com.example.pkg'', version = Some ''0.8.0-preview'',
        relCommit = ''0000006'', relTag = ''0.8.0-preview'', state = Failed,
        reason = Some 2\<rparr>,
       \<lparr>packageName = ''com.example.pkg'', version = Some ''1.0.0'',
        relCommit = ''0000008'', relTag = ''1.0.0'', state = Pending, reason = None\<rparr>,
       \<lparr>packageName = ''com.example.pkg'', version = Some ''1.0.2'',
        relCommit = ''0000010'', relTag = ''1.0.2'', state = Succeeded, reason = None\<rparr>],
      \<lparr>releases =
         [\<lparr>packageName = ''com.example.pkg'', version = Some ''1.0.2'',
           relCommit = ''0000010'', relTag = ''1.0.2'', state = Succeeded, reason = None\<rparr>,
          \<lparr>packageName = ''com.example.pkg'', version = Some ''0.8.0-preview'',
           relCommit = ''0000006'', relTag = ''0.8.0-preview'', state = Failed,
           reason = Some 2\<rparr>,
          \<lparr>packageName = ''com.example.pkg'', version = Some ''0.9.0'',
           relCommit = ''0000001'', relTag = ''0.9.0'', state = Pending, reason = None\<rparr>,
          \<lparr>packageName = ''com.example.pkg'', version = Some ''0.8.1-preview'',
           relCommit = ''0000005'', relTag = ''releases/0.8.1-preview'', state = Pending,
           reason = None\<rparr>,
          \<lparr>packageName = ''com.example.pkg'', version = Some ''1.0.0'',
           relCommit = ''0000008'', relTag = ''1.0.0'', state = Pending, reason = None\<rparr>],
       invalidTags = (\<lambda>n. None), jobs = [],
       calls =
         [FetchAll ''com.example.pkg'',
          RemoveRelease ''com.example.pkg'' (Some ''1.0.0''),
          FetchOne ''com.example.pkg'' (Some ''0.8.1-preview''),
          Save \<lparr>packageName = ''com.example.pkg'', version = Some ''0.8.1-preview'',
                relCommit = ''0000005'', relTag = ''releases/0.8.1-preview'', state = Pending,
                reason = None\<rparr>,
          FetchOne ''com.example.pkg'' (Some ''0.8.0-preview''),
          FetchOne ''com.example.pkg'' (Some ''1.0.0''),
          Save \<lparr>packageName = ''com.example.pkg'', version = Some ''1.0.0'',
                relCommit = ''0000008'', relTag = ''1.0.0'', state = Pending, reason = None\<rparr>,
          FetchOne ''com.example.pkg'' (Some ''1.0.2'')]\<rparr>)"
  by (simp add: updateReleaseRecords_def fetchAll_def fetchOne_def save_def removeRelease_def
      listed_def testWorld_def testReleases_def testValidTags_def Let_def)

theorem C3_stale_failed_removed_first_witness:
  "calls (snd (updateReleaseRecords testEnv ''com.example.pkg'' testValidTags testWorld)) =
     [FetchAll ''com.example.pkg'', RemoveRelease ''com.example.pkg'' (Some ''1.0.0'')] @
     [FetchOne ''com.example.pkg'' (Some ''0.8.1-preview''),
      Save \<lparr>packageName = ''com.example.pkg'', version = Some ''0.8.1-preview'',
            relCommit = ''0000005'', relTag = ''releases/0.8.1-preview'', state = Pending,
            reason = None\<rparr>,
      FetchOne ''com.example.pkg'' (Some ''0.8.0-preview''),
      FetchOne ''com.example.pkg'' (Some ''1.0.0''),
      Save \<lparr>packageName = ''com.example.pkg'', version = Some ''1.0.0'',
            relCommit = ''0000008'', relTag = ''1.0.0'', state = Pending, reason = None\<rparr>,
      FetchOne ''com.example.pkg'' (Some ''1.0.2'')] \<and>
   \<lparr>packageName = ''com.example.pkg'', version = Some ''0.8.0-preview'',
    relCommit = ''0000006'', relTag = ''0.8.0-preview'', state = Failed, reason = Some 2\<rparr>
     \<in> set (releases (snd (updateReleaseRecords testEnv ''com.example.pkg'' testValidTags testWorld)))"
proof -
  let ?kept = "\<lparr>packageName = ''com.example.pkg'', version = Some ''0.8.0-preview'',
    relCommit = ''0000006'', relTag = ''0.8.0-preview'', state = Failed, reason = Some 2\<rparr>"
  from C3_stale_failed_removed_first [of testEnv "''com.example.pkg''" testValidTags testWorld]
  obtain evs where
    k: "\<forall>r. r \<in> set (releases testWorld) \<and>
           \<not> (packageName r = ''com.example.pkg'' \<and>
              (\<exists>s. s \<in> set (releases testWorld) \<and> packageName s = ''com.example.pkg'' \<and>
                   state s = Failed \<and>
                   \<not> (\<exists>x. x \<in> set testValidTags \<and> tag x = relTag s \<and> commit x = relCommit s) \<and>
                   version s = version r)) \<longrightarrow>
           r \<in> set (releases (snd (updateReleaseRecords testEnv ''com.example.pkg''
                                     testValidTags testWorld)))"
    by blast
  have "?kept \<in> set (releases testWorld) \<and>
           \<not> (packageName ?kept = ''com.example.pkg'' \<and>
              (\<exists>s. s \<in> set (releases testWorld) \<and> packageName s = ''com.example.pkg'' \<and>
                   state s = Failed \<and>
                   \<not> (\<exists>x. x \<in> set testValidTags \<and> tag x = relTag s \<and> commit x = relCommit s) \<and>
                   version s = version ?kept))"
    unfolding listed_iff [symmetric]
    by (auto simp: testReleases_def testValidTags_def listed_def)
  with k have "?kept \<in> set (releases (snd (updateReleaseRecords testEnv ''com.example.pkg''
                                     testValidTags testWorld)))"
    by blast
  then show ?thesis
    by (simp add: testWorld_updateReleaseRecords)
qed

text \<open>
  Claim C8. In the second loop of \<open>updateReleaseRecords\<close>, when the lookup of a tag's
  version finds a release, that release is returned as it is stored, at the position of
  the tag, whatever the commit of the tag; the step makes the lookup and nothing else, so
  nothing is saved and the store is unchanged. When the lookup finds nothing, the record
  of packageName, version, commit and tag is saved, in the default state. The loop only
  adds releases at the end of the store: every stored release stays as it is.
\<close>

theorem C8_existing_release_reused:
  assumes "convertTags e pn pre (rels0, w0) = (rels1, w1)"
  shows "(\<forall>r. find (\<lambda>r. packageName r = pn \<and> version r = getVersionFromTag e (tag t))
                (releases w1) = Some r \<longrightarrow>
            convertTags e pn (pre @ [t]) (rels0, w0) =
              (rels1 @ [r], w1\<lparr>calls := calls w1 @ [FetchOne pn (getVersionFromTag e (tag t))]\<rparr>) \<and>
            fst (convertTags e pn (pre @ t # post) (rels0, w0)) ! (length rels0 + length pre) = r \<and>
            r \<in> set (releases (snd (convertTags e pn (pre @ t # post) (rels0, w0))))) \<and>
         (find (\<lambda>r. packageName r = pn \<and> version r = getVersionFromTag e (tag t))
                (releases w1) = None \<longrightarrow>
            convertTags e pn (pre @ [t]) (rels0, w0) =
              (rels1 @ [\<lparr>packageName = pn, version = getVersionFromTag e (tag t),
                          relCommit = commit t, relTag = tag t, state = Pending, reason = None\<rparr>],
               w1\<lparr>releases := releases w1 @
                     [\<lparr>packageName = pn, version = getVersionFromTag e (tag t),
                       relCommit = commit t, relTag = tag t, state = Pending, reason = None\<rparr>],
                  calls := calls w1 @
                     [FetchOne pn (getVersionFromTag e (tag t)),
                      Save \<lparr>packageName = pn, version = getVersionFromTag e (tag t),
                            relCommit = commit t, relTag = tag t, state = Pending,
                            reason = None\<rparr>]\<rparr>)) \<and>
         (\<exists>new. releases (snd (convertTags e pn (pre @ t # post) (rels0, w0))) =
                  releases w0 @ new)"
proof (intro conjI allI impI)
  let ?v = "getVersionFromTag e (tag t)"
  have step: "convertTags e pn (pre @ [t]) (rels0, w0) = convertTags e pn [t] (rels1, w1)"
    by (simp add: convertTags_append assms)
  have full: "convertTags e pn (pre @ t # post) (rels0, w0) =
      convertTags e pn post (convertTags e pn [t] (rels1, w1))"
    using convertTags_append [of e pn "pre @ [t]" post "(rels0, w0)"] step by simp
  from convertTags_frame [of e pn pre rels0 w0] assms obtain addedPre where
    pre: "rels1 = rels0 @ addedPre" "length addedPre = length pre"
    by auto
  {
    fix r
    assume found: "find (\<lambda>r. packageName r = pn \<and> version r = ?v) (releases w1) = Some r"
    let ?w1 = "w1\<lparr>calls := calls w1 @ [FetchOne pn ?v]\<rparr>"
    show "convertTags e pn (pre @ [t]) (rels0, w0) = (rels1 @ [r], ?w1)"
      unfolding step by (rule convertTags_found [OF found])
    from convertTags_frame [of e pn post "rels1 @ [r]" ?w1] obtain new evs added where
      post: "convertTags e pn post (rels1 @ [r], ?w1) =
               ((rels1 @ [r]) @ added, ?w1\<lparr>releases := releases ?w1 @ new, calls := calls ?w1 @ evs\<rparr>)"
      by blast
    have all: "convertTags e pn (pre @ t # post) (rels0, w0) =
        ((rels1 @ [r]) @ added, ?w1\<lparr>releases := releases ?w1 @ new, calls := calls ?w1 @ evs\<rparr>)"
      unfolding full convertTags_found [OF found] post ..
    show "fst (convertTags e pn (pre @ t # post) (rels0, w0)) ! (length rels0 + length pre) = r"
      unfolding all using pre by (simp add: nth_append)
    have "r \<in> set (releases w1)"
      using found by (auto simp: find_Some_iff)
    then show "r \<in> set (releases (snd (convertTags e pn (pre @ t # post) (rels0, w0))))"
      unfolding all by simp
  }
  {
    assume absent: "find (\<lambda>r. packageName r = pn \<and> version r = ?v) (releases w1) = None"
    show "convertTags e pn (pre @ [t]) (rels0, w0) =
              (rels1 @ [\<lparr>packageName = pn, version = ?v,
                          relCommit = commit t, relTag = tag t, state = Pending, reason = None\<rparr>],
               w1\<lparr>releases := releases w1 @
                     [\<lparr>packageName = pn, version = ?v,
                       relCommit = commit t, relTag = tag t, state = Pending, reason = None\<rparr>],
                  calls := calls w1 @
                     [FetchOne pn ?v,
                      Save \<lparr>packageName = pn, version = ?v,
                            relCommit = commit t, relTag = tag t, state = Pending,
                            reason = None\<rparr>]\<rparr>)"
      unfolding step by (rule convertTags_absent [OF absent])
  }
  from convertTags_frame [of e pn "pre @ t # post" rels0 w0]
  show "\<exists>new. releases (snd (convertTags e pn (pre @ t # post) (rels0, w0))) = releases w0 @ new"
    by auto
qed

theorem C8_existing_release_reused_witness:
  "find (\<lambda>r. packageName r = ''com.example.pkg'' \<and>
              version r = getVersionFromTag testEnv (tag movedTag)) (releases testWorld) =
     Some \<lparr>packageName = ''com.example.pkg'', version = Some ''1.0.2'',
           relCommit = ''0000010'', relTag = ''1.0.2'', state = Succeeded, reason = None\<rparr> \<and>
   commit movedTag = ''0000011'' \<and>
   convertTags testEnv ''com.example.pkg'' [movedTag] ([], testWorld) =
     ([\<lparr>packageName = ''com.example.pkg'', version = Some ''1.0.2'',
        relCommit = ''0000010'', relTag = ''1.0.2'', state = Succeeded, reason = None\<rparr>],
      testWorld\<lparr>calls := [FetchOne ''com.example.pkg'' (Some ''1.0.2'')]\<rparr>) \<and>
   \<lparr>packageName = ''com.example.pkg'', version = Some ''1.0.2'',
    relCommit = ''0000010'', relTag = ''1.0.2'', state = Succeeded, reason = None\<rparr>
     \<in> set (releases (snd (convertTags testEnv ''com.example.pkg'' [movedTag] ([], testWorld))))"
proof -
  have start: "convertTags testEnv ''com.example.pkg'' [] ([], testWorld) = ([], testWorld)"
    by simp
  have found: "find (\<lambda>r. packageName r = ''com.example.pkg'' \<and>
              version r = getVersionFromTag testEnv (tag movedTag)) (releases testWorld) =
     Some \<lparr>packageName = ''com.example.pkg'', version = Some ''1.0.2'',
           relCommit = ''0000010'', relTag = ''1.0.2'', state = Succeeded, reason = None\<rparr>"
    by (simp add: movedTag_def testReleases_def)
  have v: "getVersionFromTag testEnv (tag movedTag) = Some ''1.0.2''"
    by (simp add: movedTag_def)
  have c: "commit movedTag = ''0000011''"
    by (simp add: movedTag_def)
  note c8 = C8_existing_release_reused [OF start, of movedTag "[]"]
  from c8 found have a:
    "convertTags testEnv ''com.example.pkg'' ([] @ [movedTag]) ([], testWorld) =
       ([] @ [\<lparr>packageName = ''com.example.pkg'', version = Some ''1.0.2'',
                relCommit = ''0000010'', relTag = ''1.0.2'', state = Succeeded,
                reason = None\<rparr>],
        testWorld\<lparr>calls := calls testWorld @
           [FetchOne ''com.example.pkg'' (getVersionFromTag testEnv (tag movedTag))]\<rparr>)"
    by blast
  from c8 found have b:
    "\<lparr>packageName = ''com.example.pkg'', version = Some ''1.0.2'',
      relCommit = ''0000010'', relTag = ''1.0.2'', state = Succeeded, reason = None\<rparr>
       \<in> set (releases (snd (convertTags testEnv ''com.example.pkg'' ([] @ movedTag # [])
                                 ([], testWorld))))"
    by blast
  from found a b c show ?thesis
    unfolding v by (simp del: convertTags.simps)
qed

section \<open>Properties of addReleaseJobs\<close>

lemma addReleaseJobsLoop_append:
  "addReleaseJobsLoop e (xs @ ys) s = addReleaseJobsLoop e ys (addReleaseJobsLoop e xs s)"
proof (induction xs arbitrary: s)
  case Nil
  then show ?case by (cases s) simp
next
  case (Cons x xs)
  obtain w i where s: "s = (w, i)" by (cases s)
  show ?case
    unfolding s by (auto simp: Cons.IH Let_def split: prod.split)
qed

lemma getJob_found:
  "(fst (getJob jid w) \<noteq> None) = (\<exists>j. j \<in> set (jobs w) \<and> jobId j = jid)"
  by (auto simp: getJob_def find_None_iff)

lemma includesReason_iff:
  "includesReason xs r = (\<exists>x. r = Some x \<and> x \<in> set xs)"
  by (cases r) simp_all

text \<open>One turn of the loop, from the queue \<open>w\<close> and the counter \<open>i\<close>.\<close>

lemma addReleaseJobsLoop_skip:
  assumes "(\<exists>j. j \<in> set (jobs w) \<and>
                jobId j = buildReleaseJobId e (packageName rel) (version rel)) \<or>
           state rel = Succeeded \<or>
           (state rel = Failed \<and>
            \<not> (\<exists>r. releaseReasonGet e (reason rel) = Some r \<and> r \<in> set (retryableReleaseReason e)))"
  shows "addReleaseJobsLoop e [rel] (w, i) =
           (w\<lparr>calls := calls w @
                 [GetJob (buildReleaseJobId e (packageName rel) (version rel))]\<rparr>, i)"
proof -
  have "fst (getJob (buildReleaseJobId e (packageName rel) (version rel)) w) \<noteq> None \<or>
        state rel = Succeeded \<or>
        (state rel = Failed \<and>
         \<not> includesReason (retryableReleaseReason e) (releaseReasonGet e (reason rel)))"
    unfolding getJob_found includesReason_iff using assms by simp
  then show ?thesis
    by (auto simp: Let_def getJob_def split: prod.split)
qed

lemma addReleaseJobsLoop_add:
  assumes "\<not> ((\<exists>j. j \<in> set (jobs w) \<and>
                jobId j = buildReleaseJobId e (packageName rel) (version rel)) \<or>
           state rel = Succeeded \<or>
           (state rel = Failed \<and>
            \<not> (\<exists>r. releaseReasonGet e (reason rel) = Some r \<and> r \<in> set (retryableReleaseReason e))))"
  shows "addReleaseJobsLoop e [rel] (w, i) =
           (w\<lparr>jobs := jobs w @
                 [\<lparr>jobId = buildReleaseJobId e (packageName rel) (version rel),
                   jobCfg = buildRelease e,
                   jobDelay = (if i = 0 then DelayZero
                               else DelayDate (delay (buildRelease e) * int i))\<rparr>],
              calls := calls w @
                 [GetJob (buildReleaseJobId e (packageName rel) (version rel)),
                  AddJob \<lparr>jobId = buildReleaseJobId e (packageName rel) (version rel),
                          jobCfg = buildRelease e,
                          jobDelay = (if i = 0 then DelayZero
                                      else DelayDate (delay (buildRelease e) * int i))\<rparr>]\<rparr>,
            i + 1)"
proof -
  have "\<not> (fst (getJob (buildReleaseJobId e (packageName rel) (version rel)) w) \<noteq> None \<or>
        state rel = Succeeded \<or>
        (state rel = Failed \<and>
         \<not> includesReason (retryableReleaseReason e) (releaseReasonGet e (reason rel))))"
    unfolding getJob_found includesReason_iff using assms by simp
  then show ?thesis
    by (auto simp: Let_def getJob_def addJob_def split: prod.split)
qed

text \<open>
  Claim C4. When the loop of \<open>addReleaseJobs\<close> reaches a release, with the queue \<open>w1\<close>
  and the counter \<open>i1\<close>: if the queue has a job with the release's job id, or the
  release is Succeeded, or it is Failed and its reason is not among the retryable
  reasons, the turn only looks the job up, adds no job and leaves the counter as it is;
  otherwise it adds one job with that id and increments the counter.
\<close>

theorem C4_enqueue_iff_not_skipped:
  assumes "addReleaseJobsLoop e pre (w, 0) = (w1, i1)"
  shows "addReleaseJobsLoop e (pre @ rel # post) (w, 0) =
           addReleaseJobsLoop e post (addReleaseJobsLoop e (pre @ [rel]) (w, 0)) \<and>
         ((\<exists>j. j \<in> set (jobs w1) \<and>
                jobId j = buildReleaseJobId e (packageName rel) (version rel)) \<or>
           state rel = Succeeded \<or>
           (state rel = Failed \<and>
            \<not> (\<exists>r. releaseReasonGet e (reason rel) = Some r \<and> r \<in> set (retryableReleaseReason e)))
          \<longrightarrow>
            addReleaseJobsLoop e (pre @ [rel]) (w, 0) =
              (w1\<lparr>calls := calls w1 @
                    [GetJob (buildReleaseJobId e (packageName rel) (version rel))]\<rparr>, i1)) \<and>
         (\<not> ((\<exists>j. j \<in> set (jobs w1) \<and>
                jobId j = buildReleaseJobId e (packageName rel) (version rel)) \<or>
           state rel = Succeeded \<or>
           (state rel = Failed \<and>
            \<not> (\<exists>r. releaseReasonGet e (reason rel) = Some r \<and> r \<in> set (retryableReleaseReason e))))
          \<longrightarrow>
            addReleaseJobsLoop e (pre @ [rel]) (w, 0) =
              (w1\<lparr>jobs := jobs w1 @
                    [\<lparr>jobId = buildReleaseJobId e (packageName rel) (version rel),
                      jobCfg = buildRelease e,
                      jobDelay = (if i1 = 0 then DelayZero
                                  else DelayDate (delay (buildRelease e) * int i1))\<rparr>],
                 calls := calls w1 @
                    [GetJob (buildReleaseJobId e (packageName rel) (version rel)),
                     AddJob \<lparr>jobId = buildReleaseJobId e (packageName rel) (version rel),
                             jobCfg = buildRelease e,
                             jobDelay = (if i1 = 0 then DelayZero
                                         else DelayDate (delay (buildRelease e) * int i1))\<rparr>]\<rparr>,
               i1 + 1))"
proof -
  have step: "addReleaseJobsLoop e (pre @ [rel]) (w, 0) = addReleaseJobsLoop e [rel] (w1, i1)"
    by (simp add: addReleaseJobsLoop_append assms)
  have full: "addReleaseJobsLoop e (pre @ rel # post) (w, 0) =
           addReleaseJobsLoop e post (addReleaseJobsLoop e (pre @ [rel]) (w, 0))"
    using addReleaseJobsLoop_append [of e "pre @ [rel]" post "(w, 0)"] by simp
  show ?thesis
    unfolding step
    using full [unfolded step] addReleaseJobsLoop_skip [of w1 e rel i1]
      addReleaseJobsLoop_add [of w1 e rel i1]
    by blast
qed

lemma testBatch_run:
  "addReleaseJobsLoop testEnv testBatch (testWorld, 0) =
     (\<lparr>releases = testReleases, invalidTags = (\<lambda>n. None),
       jobs =
         [\<lparr>jobId = ''build-rel:com.example.pkg:1.0.2'',
           jobCfg = \<lparr>key = ''build-rel'', delay = 5\<rparr>, jobDelay = DelayZero\<rparr>,
          \<lparr>jobId = ''build-rel:com.example.pkg:0.9.0'',
           jobCfg = \<lparr>key = ''build-rel'', delay = 5\<rparr>, jobDelay = DelayDate 5\<rparr>,
          \<lparr>jobId = ''build-rel:com.example.pkg:0.8.0'',
           jobCfg = \<lparr>key = ''build-rel'', delay = 5\<rparr>, jobDelay = DelayDate 10\<rparr>],
       calls =
         [GetJob ''build-rel:com.example.pkg:1.0.2'',
          AddJob \<lparr>jobId = ''build-rel:com.example.pkg:1.0.2'',
                  jobCfg = \<lparr>key = ''build-rel'', delay = 5\<rparr>, jobDelay = DelayZero\<rparr>,
          GetJob ''build-rel:com.example.pkg:1.0.2'',
          GetJob ''build-rel:com.example.pkg:1.0.1'',
          GetJob ''build-rel:com.example.pkg:1.0.0'',
          GetJob ''build-rel:com.example.pkg:0.9.0'',
          AddJob \<lparr>jobId = ''build-rel:com.example.pkg:0.9.0'',
                  jobCfg = \<lparr>key = ''build-rel'', delay = 5\<rparr>, jobDelay = DelayDate 5\<rparr>,
          GetJob ''build-rel:com.example.pkg:0.8.0'',
          AddJob \<lparr>jobId = ''build-rel:com.example.pkg:0.8.0'',
                  jobCfg = \<lparr>key = ''build-rel'', delay = 5\<rparr>, jobDelay = DelayDate 10\<rparr>]\<rparr>,
      3)"
  by (simp add: testBatch_def testWorld_def buildReleaseJobId_def getJob_def addJob_def Let_def)

theorem C4_enqueue_iff_not_skipped_witness:
  "addReleaseJobsLoop testEnv [] (testWorld, 0) = (testWorld, 0) \<and>
   state (testBatch ! 3) = Failed \<and>
   releaseReasonGet testEnv (reason (testBatch ! 3)) = Some ''BadRequest'' \<and>
   addReleaseJobsLoop testEnv ([] @ [testBatch ! 3]) (testWorld, 0) =
     (testWorld\<lparr>calls := [GetJob ''build-rel:com.example.pkg:1.0.0'']\<rparr>, 0) \<and>
   state (testBatch ! 4) = Failed \<and>
   releaseReasonGet testEnv (reason (testBatch ! 4)) = Some ''BuildTimeout'' \<and>
   addReleaseJobsLoop testEnv ([] @ [testBatch ! 4]) (testWorld, 0) =
     (testWorld\<lparr>jobs :=
          [\<lparr>jobId = ''build-rel:com.example.pkg:0.9.0'',
            jobCfg = \<lparr>key = ''build-rel'', delay = 5\<rparr>, jobDelay = DelayZero\<rparr>],
        calls :=
          [GetJob ''build-rel:com.example.pkg:0.9.0'',
           AddJob \<lparr>jobId = ''build-rel:com.example.pkg:0.9.0'',
                   jobCfg = \<lparr>key = ''build-rel'', delay = 5\<rparr>, jobDelay = DelayZero\<rparr>]\<rparr>,
      1)"
proof -
  have start: "addReleaseJobsLoop testEnv [] (testWorld, 0) = (testWorld, 0)"
    by simp
  have r3: "testBatch ! 3 =
      \<lparr>packageName = ''com.example.pkg'', version = Some ''1.0.0'', relCommit = ''0000008'',
       relTag = ''1.0.0'', state = Failed, reason = Some 2\<rparr>"
    and r4: "testBatch ! 4 =
      \<lparr>packageName = ''com.example.pkg'', version = Some ''0.9.0'', relCommit = ''0000007'',
       relTag = ''0.9.0'', state = Failed, reason = Some 1\<rparr>"
    by (simp_all add: testBatch_def)
  from C4_enqueue_iff_not_skipped [OF start, of "testBatch ! 3" "[]"]
  have skip: "addReleaseJobsLoop testEnv ([] @ [testBatch ! 3]) (testWorld, 0) =
     (testWorld\<lparr>calls := [GetJob ''build-rel:com.example.pkg:1.0.0'']\<rparr>, 0)"
    by (simp add: r3 buildReleaseJobId_def del: addReleaseJobsLoop.simps)
  from C4_enqueue_iff_not_skipped [OF start, of "testBatch ! 4" "[]"]
  have add: "addReleaseJobsLoop testEnv ([] @ [testBatch ! 4]) (testWorld, 0) =
     (testWorld\<lparr>jobs :=
          [\<lparr>jobId = ''build-rel:com.example.pkg:0.9.0'',
            jobCfg = \<lparr>key = ''build-rel'', delay = 5\<rparr>, jobDelay = DelayZero\<rparr>],
        calls :=
          [GetJob ''build-rel:com.example.pkg:0.9.0'',
           AddJob \<lparr>jobId = ''build-rel:com.example.pkg:0.9.0'',
                   jobCfg = \<lparr>key = ''build-rel'', delay = 5\<rparr>, jobDelay = DelayZero\<rparr>]\<rparr>,
      1)"
    by (simp add: r4 buildReleaseJobId_def del: addReleaseJobsLoop.simps)
  from start skip add show ?thesis
    by (simp add: r3 r4 del: addReleaseJobsLoop.simps)
qed

lemma addReleaseJobsLoop_added:
  "\<exists>added evs.
      addReleaseJobsLoop e rels (w, i) =
        (w\<lparr>jobs := jobs w @ added, calls := calls w @ evs\<rparr>, i + length added) \<and>
      map jobDelay added = map (staggered (delay (buildRelease e))) [i..<i + length added] \<and>
      distinct (map jobId added) \<and>
      (\<forall>j. j \<in> set added \<longrightarrow> \<not> (\<exists>j0. j0 \<in> set (jobs w) \<and> jobId j0 = jobId j))"
proof (induction rels arbitrary: w i)
  case Nil
  have "addReleaseJobsLoop e [] (w, i) =
      (w\<lparr>jobs := jobs w @ [], calls := calls w @ []\<rparr>, i + length ([] :: job list))"
    by simp
  moreover have
    "map jobDelay [] = map (staggered (delay (buildRelease e))) [i..<i + length ([] :: job list)]"
    "distinct (map jobId [])"
    "\<forall>j. j \<in> set [] \<longrightarrow> \<not> (\<exists>j0. j0 \<in> set (jobs w) \<and> jobId j0 = jobId j)"
    by simp_all
  ultimately show ?case by blast
next
  case (Cons rel rels)
  let ?jid = "buildReleaseJobId e (packageName rel) (version rel)"
  let ?skip = "(\<exists>j. j \<in> set (jobs w) \<and> jobId j = ?jid) \<or> state rel = Succeeded \<or>
           (state rel = Failed \<and>
            \<not> (\<exists>r. releaseReasonGet e (reason rel) = Some r \<and> r \<in> set (retryableReleaseReason e)))"
  have split: "addReleaseJobsLoop e (rel # rels) (w, i) =
      addReleaseJobsLoop e rels (addReleaseJobsLoop e [rel] (w, i))"
    using addReleaseJobsLoop_append [of e "[rel]" rels "(w, i)"] by simp
  show ?case
  proof (cases ?skip)
    case True
    let ?w1 = "w\<lparr>calls := calls w @ [GetJob ?jid]\<rparr>"
    from Cons.IH [of ?w1 i] obtain added evs where
      ih: "addReleaseJobsLoop e rels (?w1, i) =
             (?w1\<lparr>jobs := jobs ?w1 @ added, calls := calls ?w1 @ evs\<rparr>, i + length added)"
        "map jobDelay added = map (staggered (delay (buildRelease e))) [i..<i + length added]"
        "distinct (map jobId added)"
        "\<forall>j. j \<in> set added \<longrightarrow> \<not> (\<exists>j0. j0 \<in> set (jobs ?w1) \<and> jobId j0 = jobId j)"
      by blast
    have "addReleaseJobsLoop e (rel # rels) (w, i) =
        (w\<lparr>jobs := jobs w @ added, calls := calls w @ (GetJob ?jid # evs)\<rparr>, i + length added)"
      unfolding split addReleaseJobsLoop_skip [OF True] ih(1) by simp
    moreover have "\<forall>j. j \<in> set added \<longrightarrow> \<not> (\<exists>j0. j0 \<in> set (jobs w) \<and> jobId j0 = jobId j)"
      using ih(4) by simp
    ultimately show ?thesis
      using ih(2,3) by blast
  next
    case False
    note noskip = False
    let ?j = "\<lparr>jobId = ?jid, jobCfg = buildRelease e,
               jobDelay = (if i = 0 then DelayZero
                           else DelayDate (delay (buildRelease e) * int i))\<rparr>"
    let ?w2 = "w\<lparr>jobs := jobs w @ [?j], calls := calls w @ [GetJob ?jid, AddJob ?j]\<rparr>"
    from Cons.IH [of ?w2 "i + 1"] obtain added evs where
      ih: "addReleaseJobsLoop e rels (?w2, i + 1) =
             (?w2\<lparr>jobs := jobs ?w2 @ added, calls := calls ?w2 @ evs\<rparr>, (i + 1) + length added)"
        "map jobDelay added =
           map (staggered (delay (buildRelease e))) [i + 1..<(i + 1) + length added]"
        "distinct (map jobId added)"
        "\<forall>j. j \<in> set added \<longrightarrow> \<not> (\<exists>j0. j0 \<in> set (jobs ?w2) \<and> jobId j0 = jobId j)"
      by blast
    have run: "addReleaseJobsLoop e (rel # rels) (w, i) =
        (w\<lparr>jobs := jobs w @ (?j # added), calls := calls w @ (GetJob ?jid # AddJob ?j # evs)\<rparr>,
         i + length (?j # added))"
      unfolding split addReleaseJobsLoop_add [OF False] ih(1) by simp
    have upt: "[i..<i + length (?j # added)] = i # [i + 1..<(i + 1) + length added]"
      by (subst upt_rec) simp
    have delays: "map jobDelay (?j # added) =
        map (staggered (delay (buildRelease e))) [i..<i + length (?j # added)]"
      unfolding upt using ih(2) by (simp add: staggered_def)
    have fresh: "jobId j \<noteq> ?jid" if "j \<in> set added" for j
    proof
      assume eq: "jobId j = ?jid"
      have "?j \<in> set (jobs ?w2)" "jobId ?j = ?jid"
        by simp_all
      with eq have "\<exists>j0. j0 \<in> set (jobs ?w2) \<and> jobId j0 = jobId j"
        by metis
      with ih(4) that show False
        by blast
    qed
    have notin: "?jid \<notin> set (map jobId added)"
    proof
      assume "?jid \<in> set (map jobId added)"
      then obtain j where "j \<in> set added" "jobId j = ?jid"
        by auto
      with fresh show False
        by blast
    qed
    have dist: "distinct (map jobId (?j # added))"
      using ih(3) notin by simp
    have new: "\<forall>j. j \<in> set (?j # added) \<longrightarrow> \<not> (\<exists>j0. j0 \<in> set (jobs w) \<and> jobId j0 = jobId j)"
    proof (intro allI impI notI)
      fix j
      assume j: "j \<in> set (?j # added)"
        and ex: "\<exists>j0. j0 \<in> set (jobs w) \<and> jobId j0 = jobId j"
      from ex obtain j0 where j0: "j0 \<in> set (jobs w)" "jobId j0 = jobId j"
        by blast
      show False
      proof (cases "j = ?j")
        case True
        with j0 have "\<exists>j. j \<in> set (jobs w) \<and> jobId j = ?jid"
          by auto
        with noskip show False
          by blast
      next
        case False
        with j have "j \<in> set added"
          by simp
        with ih(4) have "\<not> (\<exists>j0. j0 \<in> set (jobs ?w2) \<and> jobId j0 = jobId j)"
          by blast
        moreover have "j0 \<in> set (jobs ?w2)"
          using j0(1) by simp
        ultimately show False
          using j0(2) by blast
      qed
    qed
    from run delays dist new show ?thesis
      by blast
  qed
qed

lemma distinct_map_filter_le_1:
  "distinct (map f xs) \<Longrightarrow> length (filter (\<lambda>x. f x = y) xs) \<le> 1"
proof (induction xs)
  case Nil
  then show ?case by simp
next
  case (Cons x xs)
  have ih: "length (filter (\<lambda>z. f z = y) xs) \<le> 1"
    using Cons by simp
  show ?case
  proof (cases "f x = y")
    case True
    have "f z \<noteq> f x" if "z \<in> set xs" for z
    proof
      assume "f z = f x"
      then have "f x \<in> f ` set xs"
        using that by (metis imageI)
      with Cons.prems show False by simp
    qed
    then have "filter (\<lambda>z. f z = y) xs = []"
      unfolding filter_empty_conv True [symmetric] by blast
    with True show ?thesis by simp
  next
    case False
    with ih show ?thesis by simp
  qed
qed



text \<open>
  Claim C10. One run of \<open>addReleaseJobs\<close> adds at most one job for each packageName and
  version, whatever the list of releases: the job id is a function of the two, the jobs
  added have ids that differ from each other and from the ids of the jobs that the
  queue held, since the lookup before each addition sees the jobs added before.
\<close>

theorem C10_one_job_per_version:
  "\<exists>added. jobs (addReleaseJobs e rels w) = jobs w @ added \<and>
           (\<forall>pn v. length (filter (\<lambda>j. jobId j = buildReleaseJobId e pn v) added) \<le> 1) \<and>
           distinct (map jobId added) \<and>
           (\<forall>j. j \<in> set added \<longrightarrow> \<not> (\<exists>j0. j0 \<in> set (jobs w) \<and> jobId j0 = jobId j))"
proof -
  from addReleaseJobsLoop_added [of e rels w 0] obtain added evs where
    run: "addReleaseJobsLoop e rels (w, 0) =
            (w\<lparr>jobs := jobs w @ added, calls := calls w @ evs\<rparr>, 0 + length added)"
    and dist: "distinct (map jobId added)"
    and new: "\<forall>j. j \<in> set added \<longrightarrow> \<not> (\<exists>j0. j0 \<in> set (jobs w) \<and> jobId j0 = jobId j)"
    by blast
  have "jobs (addReleaseJobs e rels w) = jobs w @ added"
    by (simp add: addReleaseJobs_def run)
  moreover have "\<forall>pn v. length (filter (\<lambda>j. jobId j = buildReleaseJobId e pn v) added) \<le> 1"
    using distinct_map_filter_le_1 [OF dist] by blast
  ultimately show ?thesis
    using dist new by blast
qed

theorem C10_one_job_per_version_witness:
  "version (testBatch ! 0) = version (testBatch ! 1) \<and>
   packageName (testBatch ! 0) = packageName (testBatch ! 1) \<and>
   state (testBatch ! 0) = Pending \<and> state (testBatch ! 1) = Pending \<and>
   filter (\<lambda>j. jobId j = buildReleaseJobId testEnv ''com.example.pkg'' (Some ''1.0.2''))
     (jobs (addReleaseJobs testEnv testBatch testWorld)) =
     [\<lparr>jobId = ''build-rel:com.example.pkg:1.0.2'',
       jobCfg = \<lparr>key = ''build-rel'', delay = 5\<rparr>, jobDelay = DelayZero\<rparr>]"
proof -
  have same: "version (testBatch ! 0) = version (testBatch ! 1) \<and>
      packageName (testBatch ! 0) = packageName (testBatch ! 1) \<and>
      state (testBatch ! 0) = Pending \<and> state (testBatch ! 1) = Pending"
    by (simp add: testBatch_def)
  from C10_one_job_per_version [of testEnv testBatch testWorld] same show ?thesis
    by (simp add: addReleaseJobs_def testBatch_run buildReleaseJobId_def)
qed

section \<open>Properties of buildPackage\<close>

text \<open>
  Claim C9. When \<open>filterRemoteTags\<close> returns no valid tag, \<open>buildPackage\<close> returns
  normally: it overwrites the invalid tags of the package with all the remote tags, and
  that call is the only one it makes; no release is read or written and no job is
  looked up or added.
\<close>

theorem C9_no_valid_tags:
  assumes "filterRemoteTags e
             (gitListRemoteTags e (cleanRepoUrl e (repoUrl (loadPackage e nm)) ''git''))
             (gitTagIgnore (loadPackage e nm)) (gitTagPrefix (loadPackage e nm)) = Inr []"
  shows "\<exists>w'. buildPackage e nm w = Inr w' \<and>
           invalidTags w' nm =
             Some (gitListRemoteTags e (cleanRepoUrl e (repoUrl (loadPackage e nm)) ''git'')) \<and>
           (\<forall>n. n \<noteq> nm \<longrightarrow> invalidTags w' n = invalidTags w n) \<and>
           releases w' = releases w \<and> jobs w' = jobs w \<and>
           calls w' = calls w @
             [SetInvalidTags nm
                (gitListRemoteTags e (cleanRepoUrl e (repoUrl (loadPackage e nm)) ''git''))]"
  using assms
  by (simp add: buildPackage_def validAndInvalidTags_def difference_def setInvalidTags_def
      Let_def)

theorem C9_no_valid_tags_witness:
  "filterRemoteTags noValidEnv [\<lparr>objId = 0, tag = ''patch'', commit = ''0000009''\<rparr>] None None =
     Inr [] \<and>
   buildPackage noValidEnv ''com.example.pkg'' testWorld =
     Inr (testWorld\<lparr>invalidTags :=
                       (invalidTags testWorld)(''com.example.pkg'' \<mapsto>
                          [\<lparr>objId = 0, tag = ''patch'', commit = ''0000009''\<rparr>]),
                     calls :=
                       [SetInvalidTags ''com.example.pkg''
                          [\<lparr>objId = 0, tag = ''patch'', commit = ''0000009''\<rparr>]]\<rparr>)"
proof -
  have env: "loadPackage noValidEnv n = testPackage"
    "cleanRepoUrl noValidEnv u f = u"
    "gitListRemoteTags noValidEnv u = [\<lparr>objId = 0, tag = ''patch'', commit = ''0000009''\<rparr>]"
    "getVersionFromTag noValidEnv ''patch'' = None"
    for n u f
    by (simp_all add: noValidEnv_def)
  have f: "filterRemoteTags noValidEnv
             [\<lparr>objId = 0, tag = ''patch'', commit = ''0000009''\<rparr>] None None = Inr []"
    by (simp add: filterRemoteTags_def filteredTags_def accumulatedValidTags_def env)
  from C9_no_valid_tags [of noValidEnv "''com.example.pkg''" testWorld] f
  show ?thesis
    by (simp add: buildPackage_def validAndInvalidTags_def difference_def setInvalidTags_def
        Let_def env)
qed

end
